theory Spec2Isabelle
  imports Complex_Main "HOL-Library.Sublist"
begin

section \<open>Numbers and strings of the program\<close>

text \<open>
  The program is TypeScript. The value of a \<open>number\<close> is a real; where the source tests
  for \<open>NaN\<close> or \<open>undefined\<close> the value is an \<open>option\<close>, \<open>None\<close> standing for \<open>NaN\<close>
  (result of \<open>parseFloat\<close>) or for \<open>undefined\<close> (an optional field). The results of \<open>+\<close>,
  \<open>*\<close> and \<open>/\<close> on numbers are rounded by the machine, so in the functions that edit and
  split the estimate these three operations are a parameter, the arithmetic; what is proved
  of these functions holds for every arithmetic. Two arithmetics are defined: the one of
  IEEE 754 doubles (round to nearest, ties to even, with the subnormal numbers; an overflow
  and a division by zero are not modelled), and the exact one. \<open>Math.round\<close>, the
  comparisons and the truth value of a number are exact functions of the value. The cost
  calculation of \<open>CostAnalysisCard\<close> rounds nothing to a grid and compares nothing; it is
  stated in exact arithmetic.

  Strings are byte lists (UTF-8): the source compares whole strings, looks for ASCII
  characters and for keywords, and a byte list answers these as the UTF-16 string does.

  Built-ins whose whole behaviour is not needed (\<open>parseFloat\<close>, \<open>trim\<close>, \<open>toLowerCase\<close>,
  \<open>JSON.parse\<close>, the image codecs, the clock, the network, the PDF library) are parameters
  of the functions that call them; the properties hold whatever they do, and the samples
  use a model of each on the text it is given there.
\<close>

record arith =
  fadd :: "real \<Rightarrow> real \<Rightarrow> real"
  fmul :: "real \<Rightarrow> real \<Rightarrow> real"
  fdiv :: "real \<Rightarrow> real \<Rightarrow> real"

definition exact_arith :: arith where
  "exact_arith = \<lparr>fadd = (\<lambda>x y. x + y), fmul = (\<lambda>x y. x * y), fdiv = (\<lambda>x y. x / y)\<rparr>"

definition round_even :: "real \<Rightarrow> int" where
  \<comment> \<open>the nearest integer, a tie going to the even one\<close>
  "round_even y =
     (let n = \<lfloor>y\<rfloor>; r = y - of_int n
      in if r < 1 / 2 then n else if 1 / 2 < r then n + 1 else if even n then n else n + 1)"

definition dbl :: "real \<Rightarrow> real" where
  \<comment> \<open>the double nearest to \<open>x\<close>: a significand of 53 bits, the exponent of the last bit
      not below \<open>-1074\<close>; a result beyond the largest double is not modelled\<close>
  "dbl x =
     (if x = 0 then 0
      else let e = max (\<lfloor>log 2 \<bar>x\<bar>\<rfloor> - 52) (- 1074)
           in of_int (round_even (x / 2 powr of_int e)) * 2 powr of_int e)"

definition ieee_double :: arith where
  \<comment> \<open>each operation gives the double nearest to the exact result\<close>
  "ieee_double =
     \<lparr>fadd = (\<lambda>x y. dbl (x + y)), fmul = (\<lambda>x y. dbl (x * y)), fdiv = (\<lambda>x y. dbl (x / y))\<rparr>"

definition js_sum :: "arith \<Rightarrow> real list \<Rightarrow> real" where
  \<comment> \<open>the sum a \<open>reduce\<close> from \<open>0\<close>, or a running \<open>+=\<close>, computes\<close>
  "js_sum A xs = foldl (fadd A) 0 xs"

definition Math_round :: "real \<Rightarrow> real" where
  \<comment> \<open>\<open>Math.round\<close>: the nearest integer, a tie going up.\<close>
  "Math_round x = of_int \<lfloor>x + 1 / 2\<rfloor>"

definition truthy :: "real \<Rightarrow> bool" where
  \<comment> \<open>a number in a boolean position: \<open>0\<close> is falsy.\<close>
  "truthy x = (x \<noteq> 0)"

definition truthy_opt :: "real option \<Rightarrow> bool" where
  \<comment> \<open>an optional number in a boolean position: \<open>undefined\<close> and \<open>0\<close> are falsy.\<close>
  "truthy_opt v = (case v of None \<Rightarrow> False | Some x \<Rightarrow> truthy x)"

definition or0 :: "real \<Rightarrow> real" where
  \<comment> \<open>\<open>x || 0\<close> on a number.\<close>
  "or0 x = (if truthy x then x else 0)"

definition or0_opt :: "real option \<Rightarrow> real" where
  \<comment> \<open>\<open>x || 0\<close> on an optional number.\<close>
  "or0_opt v = (case v of None \<Rightarrow> 0 | Some x \<Rightarrow> or0 x)"

section \<open>types.ts\<close>

record MachiningOperation =
  name :: string
  description :: string
  estimatedTimeSeconds :: real
  toolType :: string
  rpm :: "real option"
  feedRate :: "real option"

datatype Difficulty = Low | Medium | High

record EstimationResult =
  partName :: string
  material :: string
  stockDiameter :: string
  stockInnerDiameter :: "string option"
  stockLength :: string
  operations :: "MachiningOperation list"
  totalTimeSeconds :: real
  difficultyRating :: Difficulty
  notes' :: string
  sideMode :: "string option"

section \<open>ResultsView: editing the estimate\<close>

datatype param_field = Rpm | FeedRate

datatype edit_failure =
  TypeError
    \<comment> \<open>\<open>result.operations[index]\<close> is \<open>undefined\<close> and a field of it is read\<close>
  | Sparse_update real
    \<comment> \<open>the index is inside the original table and past the end of the edited copy: the
        source stores an object holding nothing but the edited field there and sets a state
        with that table, which a list of \<open>MachiningOperation\<close> cannot hold; of that state
        the total is kept, in which the new object counts as \<open>0\<close>. The component is mounted
        with the edited copy equal to the original, no handler changes the length of the
        copy and the table passes the indices of the copy only\<close>

definition recalc ::
  "arith \<Rightarrow> MachiningOperation \<Rightarrow> MachiningOperation \<Rightarrow> MachiningOperation" where
  \<comment> \<open>lines 659-672 of \<open>handleParamChange\<close>: the time of the edited operation from the
      work factor of the original one.\<close>
  "recalc A originalOp currentOp =
     (if truthy (estimatedTimeSeconds originalOp) \<and> truthy_opt (rpm originalOp)
          \<and> truthy_opt (feedRate originalOp)
      then
        let workFactor = fmul A (fmul A (estimatedTimeSeconds originalOp) (the (rpm originalOp)))
                           (the (feedRate originalOp));
            newRpm = or0_opt (rpm currentOp);
            newFeed = or0_opt (feedRate currentOp)
        in if newRpm > 0 \<and> newFeed > 0
           then let newTime = fdiv A workFactor (fmul A newRpm newFeed)
                in currentOp\<lparr>estimatedTimeSeconds :=
                     fdiv A (Math_round (fmul A newTime 10)) 10\<rparr>
           else currentOp
      else currentOp)"

definition set_field :: "param_field \<Rightarrow> real option \<Rightarrow> MachiningOperation \<Rightarrow> MachiningOperation" where
  \<comment> \<open>\<open>currentOp[field] = isNaN(numValue) ? undefined : numValue\<close>\<close>
  "set_field field numValue currentOp =
     (case field of
        Rpm \<Rightarrow> currentOp\<lparr>rpm := (case numValue of None \<Rightarrow> None | Some v \<Rightarrow> Some v)\<rparr>
      | FeedRate \<Rightarrow> currentOp\<lparr>feedRate := (case numValue of None \<Rightarrow> None | Some v \<Rightarrow> Some v)\<rparr>)"

definition numValue_of :: "(string \<Rightarrow> real option) \<Rightarrow> string \<Rightarrow> real option" where
  \<comment> \<open>\<open>value === '' ? 0 : parseFloat(value)\<close>, \<open>None\<close> for \<open>NaN\<close>\<close>
  "numValue_of parseFloat value = (if value = [] then Some 0 else parseFloat value)"

definition handleParamChange ::
  "arith \<Rightarrow> (string \<Rightarrow> real option) \<Rightarrow> EstimationResult \<Rightarrow> EstimationResult \<Rightarrow>
   nat \<Rightarrow> param_field \<Rightarrow> string \<Rightarrow> edit_failure + EstimationResult" where
  \<comment> \<open>\<open>result\<close> is the prop (the estimate as analysed), \<open>localResult\<close> the edited state;
      \<open>Inr\<close> is the state given to \<open>setLocalResult\<close>.\<close>
  "handleParamChange A parseFloat result localResult index field value =
     (let numValue = numValue_of parseFloat value;
          newOperations = operations localResult
      in if index \<ge> length (operations result) then Inl TypeError
         else if index \<ge> length newOperations
         then
           let newTotalTime =
                 fadd A (foldl (\<lambda>acc op. fadd A acc (or0 (estimatedTimeSeconds op))) 0
                           newOperations) 0
           in Inl (Sparse_update (fdiv A (Math_round (fmul A newTotalTime 10)) 10))
         else
           let currentOp = set_field field numValue (newOperations ! index);
               originalOp = operations result ! index;
               currentOp = recalc A originalOp currentOp;
               newOperations = newOperations[index := currentOp];
               newTotalTime =
                 foldl (\<lambda>acc op. fadd A acc (or0 (estimatedTimeSeconds op))) 0 newOperations
           in Inr (localResult\<lparr>operations := newOperations,
                                totalTimeSeconds :=
                                  fdiv A (Math_round (fmul A newTotalTime 10)) 10\<rparr>))"

text \<open>
  A sequence of edits, each one an event of the rendered table. An edit whose handler throws
  leaves the state as it was (nothing reaches \<open>setLocalResult\<close>), and the next event is
  handled from there. The edited table starts as the original one and no edit changes its
  length, so \<open>Sparse_update\<close> does not arise in a sequence.
\<close>

definition edit_step ::
  "arith \<Rightarrow> (string \<Rightarrow> real option) \<Rightarrow> EstimationResult \<Rightarrow> EstimationResult \<Rightarrow>
   nat \<times> param_field \<times> string \<Rightarrow> EstimationResult" where
  "edit_step A parseFloat result localResult e =
     (case e of (index, field, value) \<Rightarrow>
        (case handleParamChange A parseFloat result localResult index field value of
           Inl _ \<Rightarrow> localResult
         | Inr l \<Rightarrow> l))"

definition edits ::
  "arith \<Rightarrow> (string \<Rightarrow> real option) \<Rightarrow> EstimationResult \<Rightarrow> EstimationResult \<Rightarrow>
   (nat \<times> param_field \<times> string) list \<Rightarrow> EstimationResult" where
  "edits A parseFloat result localResult es =
     foldl (edit_step A parseFloat result) localResult es"

subsection \<open>A model of \<open>parseFloat\<close> on unsigned decimal text\<close>

text \<open>
  \<open>parseFloat\<close> reads the longest prefix that is a decimal literal and gives \<open>NaN\<close> when
  there is none. On text made of digits and dots only (what \<open>parseDim\<close> passes) the literal
  is \<open>digits [. [digits]]\<close> or \<open>. digits\<close>; this is that case, with the value exact.
\<close>

definition isDigit :: "char \<Rightarrow> bool" where
  "isDigit c = (48 \<le> (of_char c :: nat) \<and> (of_char c :: nat) \<le> 57)"

definition digitsValue :: "string \<Rightarrow> nat" where
  "digitsValue ds = foldl (\<lambda>acc c. 10 * acc + ((of_char c :: nat) - 48)) 0 ds"

definition parseFloat_unsigned :: "string \<Rightarrow> real option" where
  "parseFloat_unsigned s =
     (let ip = takeWhile isDigit s;
          rest = dropWhile isDigit s;
          fp = (case rest of [] \<Rightarrow> []
                | c # r \<Rightarrow> if c = CHR ''.'' then takeWhile isDigit r else [])
      in if ip = [] \<and> fp = [] then None
         else Some (real (digitsValue ip) + real (digitsValue fp) / 10 ^ length fp))"

definition parseFloat_double :: "string \<Rightarrow> real option" where
  \<comment> \<open>the double nearest to the value of the literal\<close>
  "parseFloat_double s = map_option dbl (parseFloat_unsigned s)"

subsection \<open>A sample estimate\<close>

definition demo_ops :: "MachiningOperation list" where
  "demo_ops =
     [\<lparr>name = ''OD Rough'', description = ''rough turning'', estimatedTimeSeconds = 60,
       toolType = ''CNMG 432'', rpm = Some 1000, feedRate = Some (1 / 5)\<rparr>,
      \<lparr>name = ''Flip part'', description = ''turn the part around'', estimatedTimeSeconds = 15,
       toolType = ''none'', rpm = None, feedRate = None\<rparr>,
      \<lparr>name = ''OP20 Facing'', description = ''face the second side'',
       estimatedTimeSeconds = 25 / 2, toolType = ''CNMG 432'', rpm = Some 1500,
       feedRate = Some (1 / 10)\<rparr>]"

definition demo_result :: EstimationResult where
  "demo_result =
     \<lparr>partName = ''shaft'', material = ''S45C'', stockDiameter = ''50 mm'',
      stockInnerDiameter = Some ''ID 20mm'', stockLength = ''100.5 mm'',
      operations = demo_ops, totalTimeSeconds = 175 / 2, difficultyRating = Medium,
      notes' = ''none'', sideMode = Some ''2''\<rparr>"

text \<open>
  Rows as \<open>JSON.parse\<close> delivers them, every number a double: a row of 60 s at 1000 rpm and
  a feed of 0.2, and three rows without parameters of 26.48 s, 8.99 s and 1.98 s.
\<close>

definition double_row :: MachiningOperation where
  "double_row =
     \<lparr>name = ''OD Rough'', description = ''rough turning'', estimatedTimeSeconds = 60,
      toolType = ''CNMG 432'', rpm = Some 1000, feedRate = Some (dbl (1 / 5))\<rparr>"

definition timed_row :: "string \<Rightarrow> real \<Rightarrow> MachiningOperation" where
  "timed_row n t =
     \<lparr>name = n, description = ''a step'', estimatedTimeSeconds = t, toolType = ''none'',
      rpm = None, feedRate = None\<rparr>"

definition double_result :: "MachiningOperation list \<Rightarrow> EstimationResult" where
  "double_result ops = demo_result\<lparr>operations := ops\<rparr>"

definition three_rows :: "MachiningOperation list" where
  "three_rows =
     [timed_row ''Face'' (dbl (662 / 25)), timed_row ''Rough'' (dbl (899 / 100)),
      timed_row ''Chamfer'' (dbl (99 / 50))]"

section \<open>ResultsView: the two sides of the part\<close>

definition toLowerCase_ascii :: "string \<Rightarrow> string" where
  \<comment> \<open>what \<open>toLowerCase\<close> does to text that is all ASCII\<close>
  "toLowerCase_ascii s =
     map (\<lambda>c. if 65 \<le> (of_char c :: nat) \<and> (of_char c :: nat) \<le> 90
              then char_of ((of_char c :: nat) + 32) else c) s"

primrec includes_str :: "string \<Rightarrow> string \<Rightarrow> bool" where
  \<comment> \<open>\<open>s.includes(k)\<close>: \<open>k\<close> occurs in \<open>s\<close> as a block\<close>
  "includes_str [] k = (k = [])"
| "includes_str (c # cs) k = (take (length k) (c # cs) = k \<or> includes_str cs k)"

text \<open>
  The keywords that are not ASCII are the UTF-8 bytes of the literals as
  \<open>components/EmptyState.tsx\<close> has them. Read as Mac Roman, the characters of these literals
  are in turn the UTF-8 bytes of Chinese words: the second operation and the back side for
  side 2; turning the part around (two words), catching the part and the sub-spindle for
  the flip. The properties below do not depend on which keywords these are.
\<close>

definition side2_keyword :: "string \<Rightarrow> bool" where
  "side2_keyword n =
     (includes_str n ''op20'' \<or> includes_str n ''side 2''
      \<or> includes_str n [CHR 0xC3, CHR 0x81, CHR 0xC2, CHR 0xA8, CHR 0xC2, CHR 0xA8,
                      CHR 0xE2, CHR 0x80, CHR 0xB0, CHR 0xE2, CHR 0x88, CHR 0xAB,
                      CHR 0xC3, CHR 0xA5, CHR 0xC3, CHR 0x82, CHR 0xE2, CHR 0x88,
                      CHR 0xAB, CHR 0xC3, CHR 0xA8]
      \<or> includes_str n [CHR 0xC3, CHR 0x8B, CHR 0xC3, CHR 0x89, CHR 0xC3, CHR 0xA5,
                      CHR 0xC3, CHR 0x88, CHR 0xC3, CHR 0xB9, CHR 0xC2, CHR 0xA2])"

definition flip_keyword :: "string \<Rightarrow> bool" where
  "flip_keyword n =
     (includes_str n ''flip''
      \<or> includes_str n [CHR 0xC3, CHR 0x8A, CHR 0xC3, CHR 0xA9, CHR 0xC3, CHR 0xA2,
                      CHR 0xC3, CHR 0x88, CHR 0xE2, CHR 0x80, CHR 0xA0, CHR 0xE2,
                      CHR 0x89, CHR 0xA0]
      \<or> includes_str n [CHR 0xC3, CHR 0x82, CHR 0xC3, CHR 0xA8, CHR 0xC3, CHR 0xA7,
                      CHR 0xC3, CHR 0x8B, CHR 0xCE, CHR 0xA9, CHR 0xC3, CHR 0xA2]
      \<or> includes_str n [CHR 0xC3, CHR 0x8A, CHR 0xC3, CHR 0xA9, CHR 0xE2, CHR 0x80,
                      CHR 0xA2, CHR 0xC3, CHR 0x8A, CHR 0xC3, CHR 0xB1, CHR 0xC3,
                      CHR 0xB4]
      \<or> includes_str n [CHR 0xC3, CHR 0x82, CHR 0xC3, CHR 0xA2, CHR 0xC3, CHR 0x98,
                      CHR 0xE2, CHR 0x80, CHR 0xB0, CHR 0xE2, CHR 0x88, CHR 0x8F,
                      CHR 0xC2, CHR 0xAA, CHR 0xC3, CHR 0x8B, CHR 0xC2, CHR 0xAA,
                      CHR 0xE2, CHR 0x88, CHR 0x8F])"

record split_state =
  l1 :: real
  l2 :: real
  isSide2 :: bool

definition split_op ::
  "arith \<Rightarrow> (string \<Rightarrow> string) \<Rightarrow> split_state \<Rightarrow> MachiningOperation \<Rightarrow> split_state" where
  \<comment> \<open>the body of the \<open>forEach\<close>\<close>
  "split_op A toLowerCase st op =
     (let n = toLowerCase (name op);
          st = (if side2_keyword n then st\<lparr>isSide2 := True\<rparr> else st)
      in if flip_keyword n
         then st\<lparr>l1 := fadd A (l1 st) (estimatedTimeSeconds op), isSide2 := True\<rparr>
         else if isSide2 st
              then st\<lparr>l2 := fadd A (l2 st) (estimatedTimeSeconds op)\<rparr>
              else st\<lparr>l1 := fadd A (l1 st) (estimatedTimeSeconds op)\<rparr>)"

definition split_loop ::
  "arith \<Rightarrow> (string \<Rightarrow> string) \<Rightarrow> MachiningOperation list \<Rightarrow> split_state" where
  \<comment> \<open>the buckets when the \<open>forEach\<close> is over, before they are rounded\<close>
  "split_loop A toLowerCase ops =
     foldl (split_op A toLowerCase) \<lparr>l1 = 0, l2 = 0, isSide2 = False\<rparr> ops"

definition splitTimes ::
  "arith \<Rightarrow> (string \<Rightarrow> string) \<Rightarrow> MachiningOperation list \<Rightarrow> real \<times> real" where
  \<comment> \<open>the pair is \<open>{ l1, l2 }\<close>\<close>
  "splitTimes A toLowerCase ops =
     (let st = split_loop A toLowerCase ops in (Math_round (l1 st), Math_round (l2 st)))"

subsection \<open>The split as the specification words it\<close>

text \<open>
  The specification's reading: an operation named with a flip keyword is added to L1 and
  sends all later operations to L2; one named with a side-2 keyword goes to L2 with all later
  ones; operations before any trigger go to L1. Once side 2 has begun nothing returns to L1.
  The pair is the two buckets before they are rounded.
\<close>

fun spec_split ::
  "arith \<Rightarrow> (string \<Rightarrow> string) \<Rightarrow> bool \<Rightarrow> real \<times> real \<Rightarrow> MachiningOperation list
   \<Rightarrow> real \<times> real" where
  "spec_split A toLowerCase side2 (a, b) [] = (a, b)"
| "spec_split A toLowerCase side2 (a, b) (op # ops) =
     (let n = toLowerCase (name op);
          t = estimatedTimeSeconds op
      in if side2 then spec_split A toLowerCase True (a, fadd A b t) ops
         else if flip_keyword n then spec_split A toLowerCase True (fadd A a t, b) ops
         else if side2_keyword n then spec_split A toLowerCase True (a, fadd A b t) ops
         else spec_split A toLowerCase False (fadd A a t, b) ops)"

text \<open>What the loop does, operation by operation.\<close>

definition trigger :: "(string \<Rightarrow> string) \<Rightarrow> MachiningOperation \<Rightarrow> bool" where
  "trigger toLowerCase op =
     (side2_keyword (toLowerCase (name op)) \<or> flip_keyword (toLowerCase (name op)))"

definition in_L1 :: "(string \<Rightarrow> string) \<Rightarrow> MachiningOperation list \<Rightarrow> nat \<Rightarrow> bool" where
  \<comment> \<open>a flip operation always; any other one when neither it nor an earlier operation
      is a trigger\<close>
  "in_L1 toLowerCase ops i =
     (flip_keyword (toLowerCase (name (ops ! i)))
      \<or> \<not> list_ex (trigger toLowerCase) (take (Suc i) ops))"

text \<open>Two operations that are both named as a flip.\<close>

definition two_flips :: "MachiningOperation list" where
  "two_flips =
     [\<lparr>name = ''Flip'', description = ''to the sub-spindle'', estimatedTimeSeconds = 5,
       toolType = ''none'', rpm = None, feedRate = None\<rparr>,
      \<lparr>name = ''Flip back'', description = ''to the main spindle'', estimatedTimeSeconds = 7,
       toolType = ''none'', rpm = None, feedRate = None\<rparr>]"

text \<open>
  Operations of 0.7 s, 1.4 s, 1.4 s on the first side and 2 s on the second, and operations
  of 0.1 s on the first side and 0.1 s, 1 s on the second; every time is a double.
\<close>

definition tie_ops :: "MachiningOperation list" where
  "tie_ops =
     [timed_row ''Face'' (dbl (7 / 10)), timed_row ''Rough'' (dbl (7 / 5)),
      timed_row ''Finish'' (dbl (7 / 5)), timed_row ''OP20 Face'' 2]"

definition drift_ops :: "MachiningOperation list" where
  "drift_ops =
     [timed_row ''Face'' (dbl (1 / 10)), timed_row ''OP20 Face'' (dbl (1 / 10)),
      timed_row ''Bore'' 1]"

section \<open>CostAnalysisCard\<close>







section \<open>services/geminiService.ts: the configuration\<close>

datatype Sides = Side_1_left | Side_1_right | Side_1_complete | Side_2

definition sides_text :: "Sides \<Rightarrow> string" where
  "sides_text s =
     (case s of Side_1_left \<Rightarrow> ''1-left'' | Side_1_right \<Rightarrow> ''1-right''
      | Side_1_complete \<Rightarrow> ''1-complete'' | Side_2 \<Rightarrow> ''2'')"

datatype Strategy = Conservative | Standard | Aggressive

datatype SpindleMode = G96 | G97

record AnalysisConfig =
  cfg_material :: string
  cfg_od :: string
  cfg_id :: string
  cfg_length :: string
  sides :: Sides
  strategy :: Strategy
  spindleMode :: SpindleMode
  userRemarks :: "string option"
  apiKey :: "string option"

section \<open>services/storageService.ts\<close>

record HistoryItem =
  item_id :: string
  timestamp :: nat
  item_result :: EstimationResult
  item_config :: AnalysisConfig
  thumbnail :: string
  previewImage :: string

definition STORAGE_KEY :: string where
  "STORAGE_KEY = ''lathe_estimator_history''"

definition MAX_ITEMS :: nat where
  "MAX_ITEMS = 10"

text \<open>
  \<open>localStorage\<close> holds text. A text is represented by what the program can do with it: it
  is empty, or \<open>JSON.parse\<close> fails on it, or it is the serialisation of a list of items,
  which is what \<open>JSON.stringify\<close> writes. Text that parses to anything else is outside the
  type \<open>HistoryItem[]\<close> that \<open>getHistory\<close> declares. Access to the storage can be denied by
  the browser, and \<open>setItem\<close> can refuse a text that does not fit the quota; both throw.
\<close>

datatype stored_text = Empty_text | Not_JSON | History_JSON "HistoryItem list"

datatype storage_error = SecurityError | QuotaExceededError | SyntaxError

record LocalStorage =
  items :: "string \<Rightarrow> stored_text option"
  access_denied :: bool
  fits :: "stored_text \<Rightarrow> bool"

definition getItem :: "LocalStorage \<Rightarrow> string \<Rightarrow> storage_error + stored_text option" where
  "getItem st key = (if access_denied st then Inl SecurityError else Inr (items st key))"

definition setItem :: "LocalStorage \<Rightarrow> string \<Rightarrow> stored_text \<Rightarrow> storage_error + LocalStorage" where
  "setItem st key v =
     (if access_denied st then Inl SecurityError
      else if \<not> fits st v then Inl QuotaExceededError
      else Inr (st\<lparr>items := (items st)(key \<mapsto> v)\<rparr>))"

definition getHistory_try :: "LocalStorage \<Rightarrow> storage_error + HistoryItem list" where
  \<comment> \<open>the \<open>try\<close> block of \<open>getHistory\<close>: \<open>data ? JSON.parse(data) : []\<close>, where no text
      and the empty text are falsy\<close>
  "getHistory_try st =
     (case getItem st STORAGE_KEY of
        Inl e \<Rightarrow> Inl e
      | Inr data \<Rightarrow>
          (case data of
             None \<Rightarrow> Inr []
           | Some Empty_text \<Rightarrow> Inr []
           | Some Not_JSON \<Rightarrow> Inl SyntaxError
           | Some (History_JSON h) \<Rightarrow> Inr h))"

definition getHistory :: "LocalStorage \<Rightarrow> HistoryItem list" where
  \<comment> \<open>the \<open>catch\<close> answers every throw with the empty list\<close>
  "getHistory st = (case getHistory_try st of Inl e \<Rightarrow> [] | Inr h \<Rightarrow> h)"

definition deleteHistoryItem :: "LocalStorage \<Rightarrow> string \<Rightarrow> HistoryItem list \<times> LocalStorage" where
  \<comment> \<open>the list returned and the storage afterwards\<close>
  "deleteHistoryItem st ident =
     (let existing = getHistory st;
          updated = filter (\<lambda>item. item_id item \<noteq> ident) existing
      in case setItem st STORAGE_KEY (History_JSON updated) of
           Inl e \<Rightarrow> ([], st)
         | Inr st' \<Rightarrow> (updated, st'))"

function toString_nat :: "nat \<Rightarrow> string" where
  \<comment> \<open>\<open>Date.now().toString()\<close>: the decimal digits\<close>
  "toString_nat n =
     (if n < 10 then [char_of (48 + n)]
      else toString_nat (n div 10) @ [char_of (48 + n mod 10)])"
  by pat_completeness auto
termination
  by (relation "measure (\<lambda>n. n)") auto

datatype save_outcome = Saved | Save_failed

definition newItem_of ::
  "(string \<Rightarrow> nat \<Rightarrow> real \<Rightarrow> string) \<Rightarrow> nat \<Rightarrow> nat \<Rightarrow>
   EstimationResult \<Rightarrow> AnalysisConfig \<Rightarrow> string \<Rightarrow> HistoryItem" where
  \<comment> \<open>lines 62-76: the two compressed images and the item; \<open>compressImage\<close> always resolves,
      \<open>now_id\<close> and \<open>now_ts\<close> are the two readings of \<open>Date.now()\<close>\<close>
  "newItem_of compressImage now_id now_ts res cfg originalImageBase64 =
     (let thumb = compressImage originalImageBase64 150 (6 / 10);
          preview = compressImage originalImageBase64 800 (7 / 10)
      in \<lparr>item_id = toString_nat now_id, timestamp = now_ts, item_result = res,
          item_config = cfg, thumbnail = thumb, previewImage = preview\<rparr>)"

definition saveHistoryItem ::
  "(string \<Rightarrow> nat \<Rightarrow> real \<Rightarrow> string) \<Rightarrow> nat \<Rightarrow> nat \<Rightarrow> LocalStorage \<Rightarrow>
   EstimationResult \<Rightarrow> AnalysisConfig \<Rightarrow> string \<Rightarrow> save_outcome \<times> LocalStorage" where
  \<comment> \<open>\<open>Save_failed\<close> is the \<open>catch\<close> branch, which only warns\<close>
  "saveHistoryItem compressImage now_id now_ts st res cfg originalImageBase64 =
     (let newItem = newItem_of compressImage now_id now_ts res cfg originalImageBase64;
          existing = getHistory st;
          updated = take MAX_ITEMS (newItem # existing)
      in case setItem st STORAGE_KEY (History_JSON updated) of
           Inl e \<Rightarrow> (Save_failed, st)
         | Inr st' \<Rightarrow> (Saved, st'))"

subsection \<open>A sample history\<close>

definition demo_config :: AnalysisConfig where
  "demo_config =
     \<lparr>cfg_material = ''S45C'', cfg_od = ''50'', cfg_id = ''20'', cfg_length = ''100.5'',
      sides = Side_2, strategy = Standard, spindleMode = G96, userRemarks = None,
      apiKey = Some ''  key-from-ui ''\<rparr>"

definition demo_item :: "nat \<Rightarrow> HistoryItem" where
  "demo_item n =
     \<lparr>item_id = toString_nat n, timestamp = n, item_result = demo_result,
      item_config = demo_config, thumbnail = ''data:image/jpeg;base64,AA'',
      previewImage = ''data:image/jpeg;base64,BB''\<rparr>"

definition demo_storage :: "HistoryItem list \<Rightarrow> LocalStorage" where
  "demo_storage h =
     \<lparr>items = [STORAGE_KEY \<mapsto> History_JSON h], access_denied = False, fits = (\<lambda>v. True)\<rparr>"

definition demo_compress :: "string \<Rightarrow> nat \<Rightarrow> real \<Rightarrow> string" where
  "demo_compress img maxWidth quality = take 24 img"

section \<open>services/geminiService.ts: the analysis\<close>

text \<open>
  An error value, as far as the program looks at it: its \<open>message\<close> (which can be
  missing), what \<open>toString()\<close> gives and what \<open>JSON.stringify\<close> gives.
\<close>

record js_error =
  err_message :: "string option"
  err_string :: string
  err_json :: string

definition new_Error :: "string \<Rightarrow> js_error" where
  \<comment> \<open>\<open>new Error(m)\<close>: its own properties are not enumerable, so it serialises as \<open>{}\<close>\<close>
  "new_Error m =
     \<lparr>err_message = Some m,
      err_string = (if m = [] then ''Error'' else ''Error: '' @ m),
      err_json = ''{}''\<rparr>"

definition API_KEY_MISSING_message :: string where
  \<comment> \<open>the text of the error thrown when there is no key: the tag, then the advice in Chinese\<close>
  "API_KEY_MISSING_message =
     ''API_KEY_MISSING: ''
     @ [CHR 0xE8, CHR 0xAB, CHR 0x8B, CHR 0xE5, CHR 0x9C, CHR 0xA8]
     @ '' Vercel ''
     @ [CHR 0xE8, CHR 0xA8, CHR 0xAD, CHR 0xE5, CHR 0xAE, CHR 0x9A, CHR 0xE7, CHR 0x92,
       CHR 0xB0, CHR 0xE5, CHR 0xA2, CHR 0x83, CHR 0xE8, CHR 0xAE, CHR 0x8A, CHR 0xE6,
       CHR 0x95, CHR 0xB8, CHR 0xEF, CHR 0xBC, CHR 0x8C, CHR 0xE6, CHR 0x88, CHR 0x96,
       CHR 0xE5, CHR 0x9C, CHR 0xA8, CHR 0xE7, CHR 0xB6, CHR 0xB2, CHR 0xE9, CHR 0xA0,
       CHR 0x81, CHR 0xE4, CHR 0xB8, CHR 0x8B, CHR 0xE6, CHR 0x96, CHR 0xB9, CHR 0xE7,
       CHR 0x9B, CHR 0xB4, CHR 0xE6, CHR 0x8E, CHR 0xA5, CHR 0xE8, CHR 0xBC, CHR 0xB8,
       CHR 0xE5, CHR 0x85, CHR 0xA5]
     @ '' API Key''
     @ [CHR 0xE3, CHR 0x80, CHR 0x82]"

definition NO_DATA_message :: string where
  \<comment> \<open>the text of the error thrown when the response has no text\<close>
  "NO_DATA_message =
     ''Gemini ''
     @ [CHR 0xE6, CHR 0xB2, CHR 0x92, CHR 0xE6, CHR 0x9C, CHR 0x89, CHR 0xE5, CHR 0x9B,
       CHR 0x9E, CHR 0xE5, CHR 0x82, CHR 0xB3, CHR 0xE8, CHR 0xB3, CHR 0x87, CHR 0xE6,
       CHR 0x96, CHR 0x99]"

text \<open>
  The five places a key is read from. A read throws, or gives a text or nothing
  (\<open>undefined\<close>, also when the object read from does not exist).
\<close>

datatype env_read = Read_throws | Read_value "string option"

record Env =
  import_meta_env_VITE_API_KEY :: env_read
  process_env_VITE_API_KEY :: env_read
  process_env_REACT_APP_API_KEY :: env_read
  process_env_API_KEY :: env_read
  window_API_KEY :: env_read

definition truthy_read :: "env_read \<Rightarrow> bool" where
  "truthy_read r = (case r of Read_value (Some s) \<Rightarrow> s \<noteq> [] | _ \<Rightarrow> False)"

definition read_text :: "env_read \<Rightarrow> string" where
  "read_text r = (case r of Read_value (Some s) \<Rightarrow> s | _ \<Rightarrow> [])"

definition getEnvApiKey :: "Env \<Rightarrow> string" where
  \<comment> \<open>a throw in step 1 is ignored by the inner \<open>catch\<close>; a throw in steps 2 to 5 reaches
      the outer one, after which the empty text is returned\<close>
  "getEnvApiKey env =
     (if truthy_read (import_meta_env_VITE_API_KEY env)
      then read_text (import_meta_env_VITE_API_KEY env)
      else if process_env_VITE_API_KEY env = Read_throws then []
      else if truthy_read (process_env_VITE_API_KEY env)
      then read_text (process_env_VITE_API_KEY env)
      else if process_env_REACT_APP_API_KEY env = Read_throws then []
      else if truthy_read (process_env_REACT_APP_API_KEY env)
      then read_text (process_env_REACT_APP_API_KEY env)
      else if process_env_API_KEY env = Read_throws then []
      else if truthy_read (process_env_API_KEY env)
      then read_text (process_env_API_KEY env)
      else if window_API_KEY env = Read_throws then []
      else if truthy_read (window_API_KEY env)
      then read_text (window_API_KEY env)
      else [])"

definition effectiveApiKey :: "(string \<Rightarrow> string) \<Rightarrow> Env \<Rightarrow> AnalysisConfig \<Rightarrow> string" where
  \<comment> \<open>\<open>apiKey?.trim() || getEnvApiKey()\<close>\<close>
  "effectiveApiKey trim env config =
     (case apiKey config of
        None \<Rightarrow> getEnvApiKey env
      | Some k \<Rightarrow> if trim k \<noteq> [] then trim k else getEnvApiKey env)"

text \<open>
  A request to the model keeps the key the client was made with, the model name and the
  image. The instruction text built from the configuration travels with it and has no part
  in what follows.
\<close>

record gen_request =
  req_apiKey :: string
  req_model :: string
  req_data :: "string option"
  req_mimeType :: string

datatype gen_outcome =
  Api_throws js_error
  | Api_text "string option"
    \<comment> \<open>\<open>response.text\<close>\<close>

definition analyzeBlueprint ::
  "(string \<Rightarrow> string) \<Rightarrow> Env \<Rightarrow> (gen_request \<Rightarrow> gen_outcome) \<Rightarrow>
   (string \<Rightarrow> js_error + EstimationResult) \<Rightarrow>
   string option \<Rightarrow> string \<Rightarrow> AnalysisConfig \<Rightarrow>
   (js_error + EstimationResult) \<times> gen_request list" where
  \<comment> \<open>the value returned or the error thrown, and the requests sent to the model\<close>
  "analyzeBlueprint trim env generateContent JSON_parse base64Image mimeType config =
     (let key = effectiveApiKey trim env config
      in if key = [] then (Inl (new_Error API_KEY_MISSING_message), [])
         else
           let request = \<lparr>req_apiKey = key, req_model = ''gemini-2.5-flash'',
                           req_data = base64Image, req_mimeType = mimeType\<rparr>
           in case generateContent request of
                Api_throws e \<Rightarrow> (Inl e, [request])
              | Api_text t \<Rightarrow>
                  (case t of
                     None \<Rightarrow> (Inl (new_Error NO_DATA_message), [request])
                   | Some txt \<Rightarrow>
                       if txt = [] then (Inl (new_Error NO_DATA_message), [request])
                       else (case JSON_parse txt of
                               Inl e \<Rightarrow> (Inl e, [request])
                             | Inr parsed \<Rightarrow>
                                 (Inr (parsed\<lparr>sideMode := Some (sides_text (sides config))\<rparr>),
                                  [request]))))"

section \<open>App: from the file to the estimate\<close>

record File =
  file_name :: string
  file_type :: string
  file_bytes :: string

subsection \<open>Data URLs\<close>

text \<open>
  \<open>FileReader.readAsDataURL\<close> and \<open>canvas.toDataURL\<close> give \<open>data:\<close>, a media type,
  \<open>;base64,\<close> and the bytes in base64 (RFC 4648, with padding).
\<close>

definition b64_char :: "nat \<Rightarrow> char" where
  "b64_char n =
     ''ABCDEFGHIJKLMNOPQRSTUVWXYZabcdefghijklmnopqrstuvwxyz0123456789+/'' ! n"

fun base64_encode :: "string \<Rightarrow> string" where
  "base64_encode [] = []"
| "base64_encode [a] =
     (let x = (of_char a :: nat)
      in [b64_char (x div 4), b64_char ((x mod 4) * 16), CHR ''='', CHR ''=''])"
| "base64_encode [a, b] =
     (let x = (of_char a :: nat); y = (of_char b :: nat)
      in [b64_char (x div 4), b64_char ((x mod 4) * 16 + y div 16),
          b64_char ((y mod 16) * 4), CHR ''=''])"
| "base64_encode (a # b # c # rest) =
     (let x = (of_char a :: nat); y = (of_char b :: nat); z = (of_char c :: nat)
      in b64_char (x div 4) # b64_char ((x mod 4) * 16 + y div 16)
         # b64_char ((y mod 16) * 4 + z div 64) # b64_char (z mod 64)
         # base64_encode rest)"

definition data_url :: "string \<Rightarrow> string \<Rightarrow> string" where
  "data_url media bytes = ''data:'' @ media @ '';base64,'' @ base64_encode bytes"

fun split_str :: "char \<Rightarrow> string \<Rightarrow> string list" where
  \<comment> \<open>\<open>s.split(sep)\<close> for a separator of one character\<close>
  "split_str sep [] = [[]]"
| "split_str sep (c # cs) =
     (if c = sep then [] # split_str sep cs
      else (case split_str sep cs of
              [] \<Rightarrow> [[c]]
            | p # ps \<Rightarrow> (c # p) # ps))"

definition after_comma :: "string \<Rightarrow> string option" where
  \<comment> \<open>\<open>s.split(',')[1]\<close>, \<open>undefined\<close> when there is no comma\<close>
  "after_comma s = (case split_str (CHR '','') s of _ # b # _ \<Rightarrow> Some b | _ \<Rightarrow> None)"

subsection \<open>The conversion\<close>

text \<open>
  What the browser and the PDF library do with a file. \<open>file.arrayBuffer()\<close> gives the
  bytes of the file or rejects; \<open>getDocument\<close> gives the pages of the document or rejects;
  \<open>getPage(1)\<close> is the first of them; the canvas has a 2d context or not; rendering a page
  at scale 2 gives the picture on the canvas or rejects; \<open>toDataURL('image/jpeg', 0.85)\<close> is
  the data URL of the JPEG bytes of that picture (a page of no area, whose canvas has no
  picture to encode, is not modelled). The reader loads the file, and then its
  result is the data URL of the bytes of the file under the media type the reader writes,
  or it fails with an event.
\<close>

datatype reader_outcome =
  Reader_error js_error
    \<comment> \<open>\<open>onerror\<close> fires (before \<open>onloadend\<close>), or the reader cannot be started\<close>
  | Reader_loaded string
    \<comment> \<open>\<open>onloadend\<close> fires after a load; the media type of the data URL\<close>

record ('page, 'image) file_platform =
  arrayBuffer_rejects :: "File \<Rightarrow> bool"
  getDocument :: "string \<Rightarrow> 'page list option"
  canvas_2d :: bool
  render_page :: "'page \<Rightarrow> 'image option"
  toJPEG :: "'image \<Rightarrow> string"
  readAsDataURL :: "File \<Rightarrow> reader_outcome"

record GenerativePart =
  base64 :: "string option"
  mimeType :: string

datatype conversion = Resolved GenerativePart | Rejected js_error

definition PDF_FAILED_message :: string where
  \<comment> \<open>the text of the error a failed PDF conversion rejects with\<close>
  "PDF_FAILED_message =
     ''PDF ''
     @ [CHR 0xE8, CHR 0xBD, CHR 0x89, CHR 0xE6, CHR 0x8F, CHR 0x9B, CHR 0xE5, CHR 0xA4,
       CHR 0xB1, CHR 0xE6, CHR 0x95, CHR 0x97, CHR 0xEF, CHR 0xBC, CHR 0x8C, CHR 0xE8,
       CHR 0xAB, CHR 0x8B, CHR 0xE7, CHR 0xA2, CHR 0xBA, CHR 0xE8, CHR 0xAA, CHR 0x8D,
       CHR 0xE6, CHR 0xAA, CHR 0x94, CHR 0xE6, CHR 0xA1, CHR 0x88, CHR 0xE6, CHR 0x9C,
       CHR 0xAA, CHR 0xE6, CHR 0x90, CHR 0x8D, CHR 0xE5, CHR 0xA3, CHR 0x9E, CHR 0xE6,
       CHR 0x88, CHR 0x96, CHR 0xE5, CHR 0x98, CHR 0x97, CHR 0xE8, CHR 0xA9, CHR 0xA6,
       CHR 0xE8, CHR 0xBD, CHR 0x89, CHR 0xE5, CHR 0xAD, CHR 0x98, CHR 0xE7, CHR 0x82,
       CHR 0xBA, CHR 0xE5, CHR 0x9C, CHR 0x96, CHR 0xE7, CHR 0x89, CHR 0x87, CHR 0xE3,
       CHR 0x80, CHR 0x82]"

definition pdf_first_page_jpeg :: "('page, 'image) file_platform \<Rightarrow> File \<Rightarrow> string option" where
  \<comment> \<open>lines 25-54: the data URL of the rendered first page, \<open>None\<close> where a step throws\<close>
  "pdf_first_page_jpeg P file =
     (if arrayBuffer_rejects P file then None
      else case getDocument P (file_bytes file) of
             None \<Rightarrow> None
           | Some pages \<Rightarrow>
               (case pages of
                  [] \<Rightarrow> None
                | page # _ \<Rightarrow>
                    if \<not> canvas_2d P then None
                    else (case render_page P page of
                            None \<Rightarrow> None
                          | Some picture \<Rightarrow> Some (data_url ''image/jpeg'' (toJPEG P picture)))))"

definition fileToGenerativePart :: "('page, 'image) file_platform \<Rightarrow> File \<Rightarrow> conversion" where
  "fileToGenerativePart P file =
     (if file_type file = ''application/pdf''
      then (case pdf_first_page_jpeg P file of
              None \<Rightarrow> Rejected (new_Error PDF_FAILED_message)
            | Some base64String \<Rightarrow>
                Resolved \<lparr>base64 = after_comma base64String, mimeType = ''image/jpeg''\<rparr>)
      else (case readAsDataURL P file of
              Reader_error e \<Rightarrow> Rejected e
            | Reader_loaded media \<Rightarrow>
                Resolved \<lparr>base64 = after_comma (data_url media (file_bytes file)),
                          mimeType = file_type file\<rparr>))"

datatype AppState = IDLE | ANALYZING | SUCCESS | ERROR

record App =
  appState :: AppState
  app_result :: "EstimationResult option"
  errorMsg :: "string option"
  app_previewImage :: "string option"

definition MSG_DEFAULT :: string where
  \<comment> \<open>the message shown when no other applies\<close>
  "MSG_DEFAULT =
     [CHR 0xE5, CHR 0x88, CHR 0x86, CHR 0xE6, CHR 0x9E, CHR 0x90, CHR 0xE5, CHR 0x9C,
       CHR 0x96, CHR 0xE7, CHR 0x89, CHR 0x87, CHR 0xE5, CHR 0xA4, CHR 0xB1, CHR 0xE6,
       CHR 0x95, CHR 0x97, CHR 0xE3, CHR 0x80, CHR 0x82, CHR 0xE8, CHR 0xAB, CHR 0x8B,
       CHR 0xE7, CHR 0xA2, CHR 0xBA, CHR 0xE8, CHR 0xAA, CHR 0x8D, CHR 0xE5, CHR 0x9C,
       CHR 0x96, CHR 0xE7, CHR 0x89, CHR 0x87, CHR 0xE6, CHR 0xB8, CHR 0x85, CHR 0xE6,
       CHR 0x99, CHR 0xB0, CHR 0xE5, CHR 0xBA, CHR 0xA6, CHR 0xE4, CHR 0xB8, CHR 0xA6,
       CHR 0xE9, CHR 0x87, CHR 0x8D, CHR 0xE8, CHR 0xA9, CHR 0xA6, CHR 0xE3, CHR 0x80,
       CHR 0x82]"

definition MSG_API_KEY :: string where
  \<comment> \<open>the message for an invalid key\<close>
  "MSG_API_KEY =
     [CHR 0xE2, CHR 0x9A, CHR 0xA0, CHR 0xEF, CHR 0xB8, CHR 0x8F]
     @ '' API Key ''
     @ [CHR 0xE8, CHR 0xA8, CHR 0xAD, CHR 0xE5, CHR 0xAE, CHR 0x9A, CHR 0xE7, CHR 0x84,
       CHR 0xA1, CHR 0xE6, CHR 0x95, CHR 0x88, CHR 0xE3, CHR 0x80, CHR 0x82, CHR 0xE8,
       CHR 0xAB, CHR 0x8B, CHR 0xE6, CHR 0xAA, CHR 0xA2, CHR 0xE6, CHR 0x9F, CHR 0xA5]
     @ '' Vercel ''
     @ [CHR 0xE7, CHR 0x92, CHR 0xB0, CHR 0xE5, CHR 0xA2, CHR 0x83, CHR 0xE8, CHR 0xAE,
       CHR 0x8A, CHR 0xE6, CHR 0x95, CHR 0xB8, CHR 0xEF, CHR 0xBC, CHR 0x8C, CHR 0xE6,
       CHR 0x88, CHR 0x96, CHR 0xE7, CHR 0x9B, CHR 0xB4, CHR 0xE6, CHR 0x8E, CHR 0xA5,
       CHR 0xE5, CHR 0x9C, CHR 0xA8, CHR 0xE7, CHR 0xB6, CHR 0xB2, CHR 0xE9, CHR 0xA0,
       CHR 0x81, CHR 0xE4, CHR 0xB8, CHR 0x8B, CHR 0xE6, CHR 0x96, CHR 0xB9, CHR 0xE8,
       CHR 0xBC, CHR 0xB8, CHR 0xE5, CHR 0x85, CHR 0xA5]
     @ '' API Key''
     @ [CHR 0xE3, CHR 0x80, CHR 0x82]"

definition MSG_BUSY :: string where
  \<comment> \<open>the message for an overloaded model\<close>
  "MSG_BUSY =
     [CHR 0xE6, CHR 0x9C, CHR 0x8D, CHR 0xE5, CHR 0x8B, CHR 0x99, CHR 0xE6, CHR 0x9A,
       CHR 0xAB, CHR 0xE6, CHR 0x99, CHR 0x82, CHR 0xE7, CHR 0xB9, CHR 0x81, CHR 0xE5,
       CHR 0xBF, CHR 0x99]
     @ '' (Model Overloaded)''
     @ [CHR 0xEF, CHR 0xBC, CHR 0x8C, CHR 0xE8, CHR 0xAB, CHR 0x8B, CHR 0xE7, CHR 0xA8,
       CHR 0x8D, CHR 0xE5, CHR 0xBE, CHR 0x8C, CHR 0xE5, CHR 0x86, CHR 0x8D, CHR 0xE8,
       CHR 0xA9, CHR 0xA6, CHR 0xE3, CHR 0x80, CHR 0x82]"

definition MSG_PDF :: string where
  \<comment> \<open>the message for a PDF that cannot be processed\<close>
  "MSG_PDF =
     ''PDF ''
     @ [CHR 0xE8, CHR 0x99, CHR 0x95, CHR 0xE7, CHR 0x90, CHR 0x86, CHR 0xE5, CHR 0xA4,
       CHR 0xB1, CHR 0xE6, CHR 0x95, CHR 0x97]
     @ '' (''
     @ [CHR 0xE8, CHR 0xAB, CHR 0x8B, CHR 0xE7, CHR 0xA2, CHR 0xBA, CHR 0xE8, CHR 0xAA,
       CHR 0x8D, CHR 0xE6, CHR 0xAA, CHR 0x94, CHR 0xE6, CHR 0xA1, CHR 0x88, CHR 0xE6,
       CHR 0x98, CHR 0xAF, CHR 0xE5, CHR 0x90, CHR 0xA6, CHR 0xE5, CHR 0x8A, CHR 0xA0,
       CHR 0xE5, CHR 0xAF, CHR 0x86, CHR 0xE6, CHR 0x88, CHR 0x96, CHR 0xE6, CHR 0x90,
       CHR 0x8D, CHR 0xE5, CHR 0xA3, CHR 0x9E]
     @ '')''
     @ [CHR 0xE3, CHR 0x80, CHR 0x82]"

definition error_message :: "js_error \<Rightarrow> string" where
  \<comment> \<open>lines 107-125 of \<open>handleAnalyze\<close>\<close>
  "error_message err =
     (let errorStr = err_string err;
          errorMsgDetail = (case err_message err of None \<Rightarrow> [] | Some m \<Rightarrow> m);
          errorDetails = err_json err
      in if includes_str errorMsgDetail ''API key'' \<or> includes_str errorStr ''API key''
            \<or> includes_str errorDetails ''API_KEY'' \<or> includes_str errorMsgDetail ''400''
            \<or> includes_str errorMsgDetail ''403''
         then MSG_API_KEY
         else if includes_str errorMsgDetail ''503'' \<or> includes_str errorMsgDetail ''Overloaded''
         then MSG_BUSY
         else if includes_str errorMsgDetail ''PDF'' then MSG_PDF
         else MSG_DEFAULT)"

record ('page, 'image) Browser =
  b_trim :: "string \<Rightarrow> string"
  b_env :: Env
  b_generateContent :: "gen_request \<Rightarrow> gen_outcome"
  b_JSON_parse :: "string \<Rightarrow> js_error + EstimationResult"
  b_files :: "('page, 'image) file_platform"
  b_compressImage :: "string \<Rightarrow> nat \<Rightarrow> real \<Rightarrow> string"
  b_now_id :: nat
  b_now_ts :: nat

record analysis_run =
  run_app :: App
  run_storage :: LocalStorage
  analyze_calls :: nat
  requests :: "gen_request list"

definition failed_run ::
  "App \<Rightarrow> LocalStorage \<Rightarrow> nat \<Rightarrow> gen_request list \<Rightarrow> js_error \<Rightarrow> analysis_run" where
  \<comment> \<open>the \<open>catch\<close> of \<open>handleAnalyze\<close>\<close>
  "failed_run app st calls reqs err =
     \<lparr>run_app = app\<lparr>appState := ERROR, errorMsg := Some (error_message err)\<rparr>,
      run_storage = st, analyze_calls = calls, requests = reqs\<rparr>"

definition handleAnalyze ::
  "('page, 'image) Browser \<Rightarrow> File \<Rightarrow> AnalysisConfig \<Rightarrow> App \<Rightarrow> LocalStorage \<Rightarrow> analysis_run" where
  \<comment> \<open>the state of the component and of the storage when the handler is over, with the
      number of calls of \<open>analyzeBlueprint\<close> and the requests sent to the model\<close>
  "handleAnalyze b file config app st =
     (let app = app\<lparr>appState := ANALYZING, errorMsg := None\<rparr>
      in case fileToGenerativePart (b_files b) file of
           Rejected err \<Rightarrow> failed_run app st 0 [] err
         | Resolved part \<Rightarrow>
             let fullDataUrl =
                   ''data:'' @ mimeType part @ '';base64,''
                   @ (case base64 part of None \<Rightarrow> ''undefined'' | Some d \<Rightarrow> d);
                 app = app\<lparr>app_previewImage := Some fullDataUrl\<rparr>;
                 answer = analyzeBlueprint (b_trim b) (b_env b) (b_generateContent b)
                            (b_JSON_parse b) (base64 part) (mimeType part) config
             in case fst answer of
                  Inl err \<Rightarrow> failed_run app st 1 (snd answer) err
                | Inr data \<Rightarrow>
                    let app = app\<lparr>app_result := Some data, appState := SUCCESS\<rparr>;
                        saved = saveHistoryItem (b_compressImage b) (b_now_id b) (b_now_ts b)
                                  st data config fullDataUrl
                    in \<lparr>run_app = app, run_storage = snd saved, analyze_calls = 1,
                        requests = snd answer\<rparr>)"

text \<open>The error the \<open>try\<close> block of \<open>handleAnalyze\<close> ends with, if it does.\<close>

definition thrown_in_try ::
  "('page, 'image) Browser \<Rightarrow> File \<Rightarrow> AnalysisConfig \<Rightarrow> js_error option" where
  "thrown_in_try b file config =
     (case fileToGenerativePart (b_files b) file of
        Rejected err \<Rightarrow> Some err
      | Resolved part \<Rightarrow>
          (case fst (analyzeBlueprint (b_trim b) (b_env b) (b_generateContent b)
                       (b_JSON_parse b) (base64 part) (mimeType part) config) of
             Inl err \<Rightarrow> Some err
           | Inr data \<Rightarrow> None))"

subsection \<open>A sample browser\<close>

definition trim_spaces :: "string \<Rightarrow> string" where
  \<comment> \<open>\<open>trim\<close> on text whose only white space is the space character\<close>
  "trim_spaces s =
     rev (dropWhile (\<lambda>c. c = CHR '' '') (rev (dropWhile (\<lambda>c. c = CHR '' '') s)))"

definition no_env :: Env where
  "no_env =
     \<lparr>import_meta_env_VITE_API_KEY = Read_throws,
      process_env_VITE_API_KEY = Read_value None,
      process_env_REACT_APP_API_KEY = Read_value None,
      process_env_API_KEY = Read_value (Some []),
      window_API_KEY = Read_value None\<rparr>"

definition env_with_key :: Env where
  "env_with_key = no_env\<lparr>process_env_API_KEY := Read_value (Some ''key-from-env'')\<rparr>"

definition progress_event :: js_error where
  \<comment> \<open>the event \<open>onerror\<close> passes to \<open>reject\<close>: it has no message\<close>
  "progress_event =
     \<lparr>err_message = None, err_string = ''[object ProgressEvent]'',
      err_json = ''{isTrusted:true}''\<rparr>"

definition demo_files :: "(string, string) file_platform" where
  \<comment> \<open>a page and a picture are stood for by their descriptions\<close>
  "demo_files =
     \<lparr>arrayBuffer_rejects = (\<lambda>f. False),
      getDocument = (\<lambda>bytes. if take 4 bytes = ''%PDF'' then Some [''page one'', ''page two'']
                              else None),
      canvas_2d = True,
      render_page = (\<lambda>page. Some (''image of '' @ page)),
      toJPEG = (\<lambda>picture. ''JPEG('' @ picture @ '')''),
      readAsDataURL = (\<lambda>f. Reader_loaded (file_type f))\<rparr>"

definition unreadable_files :: "(string, string) file_platform" where
  "unreadable_files = demo_files\<lparr>readAsDataURL := (\<lambda>f. Reader_error progress_event)\<rparr>"

definition demo_browser :: "(string, string) Browser" where
  "demo_browser =
     \<lparr>b_trim = trim_spaces, b_env = env_with_key,
      b_generateContent = (\<lambda>r. Api_text (Some ''{...}'')),
      b_JSON_parse = (\<lambda>t. Inr demo_result),
      b_files = demo_files,
      b_compressImage = demo_compress, b_now_id = 11, b_now_ts = 12\<rparr>"

definition demo_app :: App where
  "demo_app = \<lparr>appState = IDLE, app_result = None, errorMsg = None, app_previewImage = None\<rparr>"

definition part_png :: File where
  "part_png =
     \<lparr>file_name = ''part.png'', file_type = ''image/png'',
      file_bytes = [CHR 0x89, CHR ''P'', CHR ''N'', CHR ''G'']\<rparr>"

definition part_pdf :: File where
  "part_pdf =
     \<lparr>file_name = ''part.pdf'', file_type = ''application/pdf'', file_bytes = ''%PDF-1.4''\<rparr>"

section \<open>Double arithmetic on the sample values\<close>

lemma round_even_of_int: "round_even (of_int m) = m"
  by (simp add: round_even_def)

lemma floor_log2_scaled:
  assumes "2 ^ 52 \<le> \<bar>x\<bar> * 2 ^ k" and "\<bar>x\<bar> * 2 ^ k < 2 ^ 53"
  shows "\<lfloor>log 2 \<bar>x\<bar>\<rfloor> = 52 - int k"
proof -
  have pos: "0 < \<bar>x\<bar>"
    using assms(1) by (cases "x = 0") simp_all
  have "log 2 (\<bar>x\<bar> * 2 ^ k) = log 2 \<bar>x\<bar> + real k"
    using pos by (simp add: log_mult log_nat_power)
  moreover have "52 \<le> log 2 (\<bar>x\<bar> * 2 ^ k)"
    using assms(1) pos by (simp add: le_log_iff powr_realpow [symmetric])
  moreover have "log 2 (\<bar>x\<bar> * 2 ^ k) < 53"
    using assms(2) pos by (simp add: log_less_iff powr_realpow [symmetric])
  ultimately have "52 - real k \<le> log 2 \<bar>x\<bar>" "log 2 \<bar>x\<bar> < 52 - real k + 1"
    by linarith+
  then show ?thesis
    by (simp add: floor_eq_iff)
qed

lemma dbl_eq:
  assumes "2 ^ 52 \<le> \<bar>x\<bar> * 2 ^ k" and "\<bar>x\<bar> * 2 ^ k < 2 ^ 53" and "k \<le> 1074"
    and "round_even (x * 2 ^ k) = m" and "v = of_int m / 2 ^ k"
  shows "dbl x = v"
proof -
  have nz: "x \<noteq> 0"
    using assms(1) by auto
  have e: "max (\<lfloor>log 2 \<bar>x\<bar>\<rfloor> - 52) (- 1074) = - int k"
    using floor_log2_scaled [OF assms(1,2)] assms(3) by simp
  have p: "(2::real) powr of_int (- int k) = 1 / 2 ^ k"
    by (simp add: powr_minus powr_realpow divide_inverse)
  show ?thesis
    using nz assms(4,5) by (simp add: dbl_def Let_def e p del: of_int_minus)
qed

lemma dbl_of_int:
  assumes "\<bar>n\<bar> < 2 ^ 53"
  shows "dbl (of_int n) = of_int n"
proof (cases "n = 0")
  case True
  then show ?thesis by (simp add: dbl_def)
next
  case False
  define a :: real where "a = \<bar>of_int n\<bar>"
  have a1: "1 \<le> a" and a2: "a < 2 ^ 53"
    using False assms by (simp_all add: a_def)
  define L where "L = \<lfloor>log 2 a\<rfloor>"
  have "0 \<le> log 2 a"
    using a1 by simp
  moreover have "log 2 a < 53"
    using a1 a2 by (simp add: log_less_iff powr_realpow [symmetric])
  ultimately have L: "0 \<le> L" "L \<le> 52"
    unfolding L_def by (simp_all add: floor_less_iff le_floor_iff)
  define j where "j = nat (52 - L)"
  have e: "max (\<lfloor>log 2 \<bar>of_int n :: real\<bar>\<rfloor> - 52) (- 1074) = - int j"
    using L by (simp add: j_def L_def a_def)
  have p: "(2::real) powr of_int (- int j) = 1 / 2 ^ j"
    by (simp add: powr_minus powr_realpow divide_inverse)
  have "round_even (of_int n / (1 / 2 ^ j)) = n * 2 ^ j"
    using round_even_of_int [of "n * 2 ^ j"] by simp
  then show ?thesis
    using False by (simp add: dbl_def Let_def e p del: of_int_minus)
qed

lemma ieee_double_fmul_commute: "fmul ieee_double x y = fmul ieee_double y x"
  by (simp add: ieee_double_def mult.commute)

lemma exact_arith_simps [simp]:
  "fadd exact_arith x y = x + y" "fmul exact_arith x y = x * y" "fdiv exact_arith x y = x / y"
  by (simp_all add: exact_arith_def)

text \<open>
  The steps of the samples, each one the double nearest to the exact result: the inputs,
  the recalculation of a row of 60 s at 1000 rpm and a feed of 0.2 edited to 384 rpm and
  back to 1000 rpm, the total of 26.48 s, 8.99 s and 1.98 s, and the sums of the buckets.
\<close>

lemma dbl_1_5: "dbl (1 / 5) = 3602879701896397 / 18014398509481984"
  by (rule dbl_eq [where k = 55 and m = 7205759403792794]) (simp_all add: round_even_def Let_def)

lemma row_work_1: "fmul ieee_double 60 1000 = 60000"
proof -
  have "dbl (60 * 1000) = 60000"
    by (rule dbl_eq [where k = 37 and m = 8246337208320000]) (simp_all add: round_even_def Let_def)
  then show ?thesis by (simp add: ieee_double_def)
qed

lemma row_work_2: "fmul ieee_double 60000 (3602879701896397 / 18014398509481984) = 12000"
proof -
  have "dbl (60000 * (3602879701896397 / 18014398509481984)) = 12000"
    by (rule dbl_eq [where k = 39 and m = 6597069766656000]) (simp_all add: round_even_def Let_def)
  then show ?thesis by (simp add: ieee_double_def)
qed

lemma row_speed: "fmul ieee_double 384 (3602879701896397 / 18014398509481984) = 1351079888211149 / 17592186044416"
proof -
  have "dbl (384 * (3602879701896397 / 18014398509481984)) = 1351079888211149 / 17592186044416"
    by (rule dbl_eq [where k = 46 and m = 5404319552844596]) (simp_all add: round_even_def Let_def)
  then show ?thesis by (simp add: ieee_double_def)
qed

lemma row_time: "fdiv ieee_double 12000 (1351079888211149 / 17592186044416) = 5497558138879999 / 35184372088832"
proof -
  have "dbl (12000 / (1351079888211149 / 17592186044416)) = 5497558138879999 / 35184372088832"
    by (rule dbl_eq [where k = 45 and m = 5497558138879999]) (simp_all add: round_even_def Let_def)
  then show ?thesis by (simp add: ieee_double_def)
qed

lemma row_time_10: "fmul ieee_double (5497558138879999 / 35184372088832) 10 = 6871947673599999 / 4398046511104"
proof -
  have "dbl ((5497558138879999 / 35184372088832) * 10) = 6871947673599999 / 4398046511104"
    by (rule dbl_eq [where k = 42 and m = 6871947673599999]) (simp_all add: round_even_def Let_def)
  then show ?thesis by (simp add: ieee_double_def)
qed

lemma row_time_round: "Math_round (6871947673599999 / 4398046511104) = 1562"
  by (simp add: Math_round_def)

lemma row_time_tenth: "fdiv ieee_double 1562 10 = 2747899460137779 / 17592186044416"
proof -
  have "dbl (1562 / 10) = 2747899460137779 / 17592186044416"
    by (rule dbl_eq [where k = 45 and m = 5495798920275558]) (simp_all add: round_even_def Let_def)
  then show ?thesis by (simp add: ieee_double_def)
qed

lemma dbl_26_48: "dbl (662 / 25) = 7453457383298171 / 281474976710656"
  by (rule dbl_eq [where k = 48 and m = 7453457383298171]) (simp_all add: round_even_def Let_def)

lemma dbl_8_99: "dbl (899 / 100) = 5060920081257595 / 562949953421312"
  by (rule dbl_eq [where k = 49 and m = 5060920081257595]) (simp_all add: round_even_def Let_def)

lemma dbl_1_98: "dbl (99 / 50) = 4458563631096791 / 2251799813685248"
  by (rule dbl_eq [where k = 52 and m = 8917127262193582]) (simp_all add: round_even_def Let_def)

lemma total_sum_1: "fadd ieee_double 0 (7453457383298171 / 281474976710656) = 7453457383298171 / 281474976710656"
proof -
  have "dbl (0 + (7453457383298171 / 281474976710656)) = 7453457383298171 / 281474976710656"
    by (rule dbl_eq [where k = 48 and m = 7453457383298171]) (simp_all add: round_even_def Let_def)
  then show ?thesis by (simp add: ieee_double_def)
qed

lemma total_sum_2: "fadd ieee_double (7453457383298171 / 281474976710656) (5060920081257595 / 562949953421312) = 1247989677990871 / 35184372088832"
proof -
  have "dbl ((7453457383298171 / 281474976710656) + (5060920081257595 / 562949953421312)) = 1247989677990871 / 35184372088832"
    by (rule dbl_eq [where k = 47 and m = 4991958711963484]) (simp_all add: round_even_def Let_def)
  then show ?thesis by (simp add: ieee_double_def)
qed

lemma total_sum_3: "fadd ieee_double (1247989677990871 / 35184372088832) (4458563631096791 / 2251799813685248) = 5270618938907033 / 140737488355328"
proof -
  have "dbl ((1247989677990871 / 35184372088832) + (4458563631096791 / 2251799813685248)) = 5270618938907033 / 140737488355328"
    by (rule dbl_eq [where k = 47 and m = 5270618938907033]) (simp_all add: round_even_def Let_def)
  then show ?thesis by (simp add: ieee_double_def)
qed

lemma total_10: "fmul ieee_double (5270618938907033 / 140737488355328) 10 = 6588273673633791 / 17592186044416"
proof -
  have "dbl ((5270618938907033 / 140737488355328) * 10) = 6588273673633791 / 17592186044416"
    by (rule dbl_eq [where k = 44 and m = 6588273673633791]) (simp_all add: round_even_def Let_def)
  then show ?thesis by (simp add: ieee_double_def)
qed

lemma total_round: "Math_round (6588273673633791 / 17592186044416) = 374"
  by (simp add: Math_round_def)

lemma total_tenth: "fdiv ieee_double 374 10 = 5263582064489267 / 140737488355328"
proof -
  have "dbl (374 / 10) = 5263582064489267 / 140737488355328"
    by (rule dbl_eq [where k = 47 and m = 5263582064489267]) (simp_all add: round_even_def Let_def)
  then show ?thesis by (simp add: ieee_double_def)
qed

lemma dbl_0_7: "dbl (7 / 10) = 3152519739159347 / 4503599627370496"
  by (rule dbl_eq [where k = 53 and m = 6305039478318694]) (simp_all add: round_even_def Let_def)

lemma dbl_1_4: "dbl (7 / 5) = 3152519739159347 / 2251799813685248"
  by (rule dbl_eq [where k = 52 and m = 6305039478318694]) (simp_all add: round_even_def Let_def)

lemma tie_sum_1: "fadd ieee_double 0 (3152519739159347 / 4503599627370496) = 3152519739159347 / 4503599627370496"
proof -
  have "dbl (0 + (3152519739159347 / 4503599627370496)) = 3152519739159347 / 4503599627370496"
    by (rule dbl_eq [where k = 53 and m = 6305039478318694]) (simp_all add: round_even_def Let_def)
  then show ?thesis by (simp add: ieee_double_def)
qed

lemma tie_sum_2: "fadd ieee_double (3152519739159347 / 4503599627370496) (3152519739159347 / 2251799813685248) = 1182194902184755 / 562949953421312"
proof -
  have "dbl ((3152519739159347 / 4503599627370496) + (3152519739159347 / 2251799813685248)) = 1182194902184755 / 562949953421312"
    by (rule dbl_eq [where k = 51 and m = 4728779608739020]) (simp_all add: round_even_def Let_def)
  then show ?thesis by (simp add: ieee_double_def)
qed

lemma tie_sum_3: "fadd ieee_double (1182194902184755 / 562949953421312) (3152519739159347 / 2251799813685248) = 7881299347898367 / 2251799813685248"
proof -
  have "dbl ((1182194902184755 / 562949953421312) + (3152519739159347 / 2251799813685248)) = 7881299347898367 / 2251799813685248"
    by (rule dbl_eq [where k = 51 and m = 7881299347898367]) (simp_all add: round_even_def Let_def)
  then show ?thesis by (simp add: ieee_double_def)
qed

lemma tie_sum_4: "fadd ieee_double 0 2 = 2"
proof -
  have "dbl (0 + 2) = 2"
    by (rule dbl_eq [where k = 51 and m = 4503599627370496]) (simp_all add: round_even_def Let_def)
  then show ?thesis by (simp add: ieee_double_def)
qed

lemma tie_round_1: "Math_round (7881299347898367 / 2251799813685248) = 3"
  by (simp add: Math_round_def)

lemma tie_round_2: "Math_round (2) = 2"
  by (simp add: Math_round_def)

lemma dbl_0_1: "dbl (1 / 10) = 3602879701896397 / 36028797018963968"
  by (rule dbl_eq [where k = 56 and m = 7205759403792794]) (simp_all add: round_even_def Let_def)

lemma drift_sum_1: "fadd ieee_double 0 (3602879701896397 / 36028797018963968) = 3602879701896397 / 36028797018963968"
proof -
  have "dbl (0 + (3602879701896397 / 36028797018963968)) = 3602879701896397 / 36028797018963968"
    by (rule dbl_eq [where k = 56 and m = 7205759403792794]) (simp_all add: round_even_def Let_def)
  then show ?thesis by (simp add: ieee_double_def)
qed

lemma drift_sum_2: "fadd ieee_double (3602879701896397 / 36028797018963968) 1 = 2476979795053773 / 2251799813685248"
proof -
  have "dbl ((3602879701896397 / 36028797018963968) + 1) = 2476979795053773 / 2251799813685248"
    by (rule dbl_eq [where k = 52 and m = 4953959590107546]) (simp_all add: round_even_def Let_def)
  then show ?thesis by (simp add: ieee_double_def)
qed

lemma drift_sum_3: "fadd ieee_double (3602879701896397 / 36028797018963968) (2476979795053773 / 2251799813685248) = 1351079888211149 / 1125899906842624"
proof -
  have "dbl ((3602879701896397 / 36028797018963968) + (2476979795053773 / 2251799813685248)) = 1351079888211149 / 1125899906842624"
    by (rule dbl_eq [where k = 52 and m = 5404319552844596]) (simp_all add: round_even_def Let_def)
  then show ?thesis by (simp add: ieee_double_def)
qed

lemma drift_sum_4: "fadd ieee_double (3602879701896397 / 36028797018963968) (3602879701896397 / 36028797018963968) = 3602879701896397 / 18014398509481984"
proof -
  have "dbl ((3602879701896397 / 36028797018963968) + (3602879701896397 / 36028797018963968)) = 3602879701896397 / 18014398509481984"
    by (rule dbl_eq [where k = 55 and m = 7205759403792794]) (simp_all add: round_even_def Let_def)
  then show ?thesis by (simp add: ieee_double_def)
qed

lemma drift_sum_5: "fadd ieee_double (3602879701896397 / 18014398509481984) 1 = 5404319552844595 / 4503599627370496"
proof -
  have "dbl ((3602879701896397 / 18014398509481984) + 1) = 5404319552844595 / 4503599627370496"
    by (rule dbl_eq [where k = 52 and m = 5404319552844595]) (simp_all add: round_even_def Let_def)
  then show ?thesis by (simp add: ieee_double_def)
qed

lemma flip_sum_1: "fadd ieee_double 0 5 = 5"
proof -
  have "dbl (0 + 5) = 5"
    by (rule dbl_eq [where k = 50 and m = 5629499534213120]) (simp_all add: round_even_def Let_def)
  then show ?thesis by (simp add: ieee_double_def)
qed

lemma flip_sum_2: "fadd ieee_double 5 7 = 12"
proof -
  have "dbl (5 + 7) = 12"
    by (rule dbl_eq [where k = 49 and m = 6755399441055744]) (simp_all add: round_even_def Let_def)
  then show ?thesis by (simp add: ieee_double_def)
qed

lemma flip_sum_3: "fadd ieee_double 0 7 = 7"
proof -
  have "dbl (0 + 7) = 7"
    by (rule dbl_eq [where k = 50 and m = 7881299347898368]) (simp_all add: round_even_def Let_def)
  then show ?thesis by (simp add: ieee_double_def)
qed

lemma back_speed: "fmul ieee_double 1000 (3602879701896397 / 18014398509481984) = 200"
proof -
  have "dbl (1000 * (3602879701896397 / 18014398509481984)) = 200"
    by (rule dbl_eq [where k = 45 and m = 7036874417766400]) (simp_all add: round_even_def Let_def)
  then show ?thesis by (simp add: ieee_double_def)
qed

lemma back_time: "fdiv ieee_double 12000 200 = 60"
proof -
  have "dbl (12000 / 200) = 60"
    by (rule dbl_eq [where k = 47 and m = 8444249301319680]) (simp_all add: round_even_def Let_def)
  then show ?thesis by (simp add: ieee_double_def)
qed

lemma back_time_10: "fmul ieee_double 60 10 = 600"
proof -
  have "dbl (60 * 10) = 600"
    by (rule dbl_eq [where k = 43 and m = 5277655813324800]) (simp_all add: round_even_def Let_def)
  then show ?thesis by (simp add: ieee_double_def)
qed

lemma back_round: "Math_round (600) = 600"
  by (simp add: Math_round_def)

lemma back_tenth: "fdiv ieee_double 600 10 = 60"
proof -
  have "dbl (600 / 10) = 60"
    by (rule dbl_eq [where k = 47 and m = 8444249301319680]) (simp_all add: round_even_def Let_def)
  then show ?thesis by (simp add: ieee_double_def)
qed

lemma dbl_156_2: "dbl (781 / 5) = 2747899460137779 / 17592186044416"
  by (rule dbl_eq [where k = 45 and m = 5495798920275558]) (simp_all add: round_even_def Let_def)

lemma dbl_37_4: "dbl (187 / 5) = 5263582064489267 / 140737488355328"
  by (rule dbl_eq [where k = 47 and m = 5263582064489267]) (simp_all add: round_even_def Let_def)

lemma dbl_1000: "dbl (1000) = 1000"
  by (rule dbl_eq [where k = 43 and m = 8796093022208000]) (simp_all add: round_even_def Let_def)

lemma dbl_384: "dbl (384) = 384"
  by (rule dbl_eq [where k = 44 and m = 6755399441055744]) (simp_all add: round_even_def Let_def)

lemma dbl_100: "dbl (100) = 100"
  by (rule dbl_eq [where k = 46 and m = 7036874417766400]) (simp_all add: round_even_def Let_def)

section \<open>Properties of the edited estimate\<close>

subsection \<open>Auxiliary facts\<close>

lemma recalc_rpm [simp]: "rpm (recalc A orig cur) = rpm cur"
  by (simp add: recalc_def Let_def)

lemma recalc_feedRate [simp]: "feedRate (recalc A orig cur) = feedRate cur"
  by (simp add: recalc_def Let_def)

lemma recalc_time:
  "estimatedTimeSeconds (recalc A orig cur) =
     (if truthy (estimatedTimeSeconds orig) \<and> truthy_opt (rpm orig) \<and> truthy_opt (feedRate orig)
         \<and> or0_opt (rpm cur) > 0 \<and> or0_opt (feedRate cur) > 0
      then fdiv A (Math_round (fmul A
             (fdiv A (fmul A (fmul A (estimatedTimeSeconds orig) (the (rpm orig)))
                        (the (feedRate orig)))
                (fmul A (or0_opt (rpm cur)) (or0_opt (feedRate cur)))) 10)) 10
      else estimatedTimeSeconds cur)"
  by (simp add: recalc_def Let_def)

lemma set_field_rpm: "rpm (set_field f v cur) = (if f = Rpm then v else rpm cur)"
  by (cases f; cases v) (simp_all add: set_field_def)

lemma set_field_feedRate: "feedRate (set_field f v cur) = (if f = FeedRate then v else feedRate cur)"
  by (cases f; cases v) (simp_all add: set_field_def)

lemma set_field_time [simp]: "estimatedTimeSeconds (set_field f v cur) = estimatedTimeSeconds cur"
  by (cases f) (simp_all add: set_field_def)

lemma handleParamChange_in_range:
  assumes "index < length (operations result)" "index < length (operations localResult)"
  shows "\<exists>l. handleParamChange A pf result localResult index field value = Inr l
           \<and> operations l = (operations localResult)[index :=
                recalc A (operations result ! index)
                  (set_field field (numValue_of pf value) (operations localResult ! index))]"
  using assms by (simp add: handleParamChange_def Let_def)

lemma handleParamChange_length:
  "handleParamChange A pf result localResult index field value = Inr l
   \<Longrightarrow> length (operations l) = length (operations localResult)"
  by (auto simp: handleParamChange_def Let_def split: if_splits)

lemma handleParamChange_other:
  "handleParamChange A pf result localResult index field value = Inr l \<Longrightarrow> j \<noteq> index
   \<Longrightarrow> operations l ! j = operations localResult ! j"
  by (auto simp: handleParamChange_def Let_def split: if_splits)

lemma edit_step_length [simp]:
  "length (operations (edit_step A pf result l e)) = length (operations l)"
  by (auto simp: edit_step_def handleParamChange_length split: prod.splits sum.splits)

lemma edits_length [simp]:
  "length (operations (edits A pf result l es)) = length (operations l)"
  unfolding edits_def by (induction es arbitrary: l) simp_all

lemma positive_or0_opt: "v = Some x \<Longrightarrow> x > 0 \<Longrightarrow> or0_opt v = x"
  by (simp add: or0_opt_def or0_def truthy_def)

lemma or0_id [simp]: "or0 x = x"
  by (simp add: or0_def truthy_def)

lemma foldl_time_sum:
  "foldl (\<lambda>acc op. fadd A acc (estimatedTimeSeconds op)) a xs
     = foldl (fadd A) a (map estimatedTimeSeconds xs)"
  by (induction xs arbitrary: a) simp_all

lemma js_sum_exact: "js_sum exact_arith xs = sum_list xs"
proof -
  have "foldl (fadd exact_arith) a xs = a + sum_list xs" for a
    by (induction xs arbitrary: a) simp_all
  then show ?thesis
    by (simp add: js_sum_def)
qed

lemma js_sum_snoc: "js_sum A (xs @ [x]) = fadd A (js_sum A xs) x"
  by (simp add: js_sum_def)

lemma js_sum_Nil: "js_sum A [] = 0"
  by (simp add: js_sum_def)

lemma js_sum_3: "js_sum A [a, b, c] = fadd A (fadd A (fadd A 0 a) b) c"
  by (simp add: js_sum_def)

lemma Math_round_tenth: "\<bar>Math_round (t * 10) / 10 - t\<bar> \<le> 1 / 20"
proof -
  have "of_int \<lfloor>t * 10 + 1 / 2\<rfloor> \<le> t * 10 + 1 / 2"
    "t * 10 + 1 / 2 < of_int \<lfloor>t * 10 + 1 / 2\<rfloor> + 1"
    by linarith+
  then show ?thesis
    unfolding Math_round_def by linarith
qed

lemma edits_snoc:
  "edits A pf result l (es @ [e]) = edit_step A pf result (edits A pf result l es) e"
  by (simp add: edits_def)

lemma edit_step_other:
  "fst e \<noteq> i \<Longrightarrow> operations (edit_step A pf result l e) ! i = operations l ! i"
  by (auto simp: edit_step_def handleParamChange_other split: prod.splits sum.splits)

lemma edit_step_same:
  assumes "i < length (operations result)" "i < length (operations l)"
  shows "operations (edit_step A pf result l (i, f, v)) ! i
           = recalc A (operations result ! i)
               (set_field f (numValue_of pf v) (operations l ! i))"
proof -
  from handleParamChange_in_range [OF assms, of A pf f v]
  obtain l' where "handleParamChange A pf result l i f v = Inr l'"
    and "operations l' = (operations l)[i := recalc A (operations result ! i)
                  (set_field f (numValue_of pf v) (operations l ! i))]"
    by blast
  then show ?thesis
    using assms(2) by (simp add: edit_step_def)
qed

lemma edits_time:
  assumes "i < length (operations result)" "i < length (operations l0)"
    and "\<exists>e \<in> set es. fst e = i"
    and "truthy (estimatedTimeSeconds (operations result ! i))"
    and "truthy_opt (rpm (operations result ! i))"
    and "truthy_opt (feedRate (operations result ! i))"
    and "or0_opt (rpm (operations (edits A pf result l0 es) ! i)) > 0"
    and "or0_opt (feedRate (operations (edits A pf result l0 es) ! i)) > 0"
  shows "estimatedTimeSeconds (operations (edits A pf result l0 es) ! i)
    = fdiv A (Math_round (fmul A
        (fdiv A (fmul A (fmul A (estimatedTimeSeconds (operations result ! i))
                           (the (rpm (operations result ! i))))
                   (the (feedRate (operations result ! i))))
           (fmul A (or0_opt (rpm (operations (edits A pf result l0 es) ! i)))
              (or0_opt (feedRate (operations (edits A pf result l0 es) ! i))))) 10)) 10"
  using assms(3,7,8)
proof (induction es rule: rev_induct)
  case Nil
  then show ?case by simp
next
  case (snoc e es)
  let ?l = "edits A pf result l0 es"
  have len: "i < length (operations ?l)"
    using assms(2) by simp
  show ?case
  proof (cases "fst e = i")
    case True
    then obtain f v where e: "e = (i, f, v)"
      by (cases e) auto
    have "operations (edits A pf result l0 (es @ [e])) ! i
            = recalc A (operations result ! i)
                (set_field f (numValue_of pf v) (operations ?l ! i))"
      unfolding edits_snoc e by (rule edit_step_same [OF assms(1) len])
    with snoc.prems(2,3) assms(4,5,6) show ?thesis
      by (simp add: recalc_time)
  next
    case False
    then have same: "operations (edits A pf result l0 (es @ [e])) ! i = operations ?l ! i"
      unfolding edits_snoc by (rule edit_step_other)
    from False snoc.prems(1) have "\<exists>e \<in> set es. fst e = i"
      by auto
    with snoc.IH snoc.prems(2,3) show ?thesis
      unfolding same by simp
  qed
qed

lemmas parse_simps = parseFloat_unsigned_def isDigit_def digitsValue_def numValue_of_def

lemma parseFloat_double_384: "parseFloat_double ''384'' = Some 384"
  by (simp add: parseFloat_double_def parse_simps dbl_384)

lemma parseFloat_double_1000: "parseFloat_double ''1000'' = Some 1000"
  by (simp add: parseFloat_double_def parse_simps dbl_1000)

lemma parseFloat_double_100: "parseFloat_double ''100'' = Some 100"
  by (simp add: parseFloat_double_def parse_simps dbl_100)

lemma parseFloat_double_0: "parseFloat_double ''0'' = Some 0"
  by (simp add: parseFloat_double_def parse_simps dbl_def)

subsection \<open>Recalculation of one operation\<close>

text \<open>
  C1. When \<open>handleParamChange\<close> is applied at an index of the table, the edited field
  takes the parsed value and the other one is kept. If the original operation has a
  nonzero time, rpm and feed rate and the resulting rpm and feed rate are strictly
  positive, the new time is
  \<open>round((origTime * origRpm * origFeed) / (newRpm * newFeed) * 10) / 10\<close>, the
  original values read from the unedited result and every \<open>*\<close> and \<open>/\<close> the operation of
  the machine, in the order written. If an effective parameter is zero, or the
  original operation lacks one of the three values, the time is left as it was.
\<close>

theorem handleParamChange_recalculates:
  assumes "index < length (operations result)"
    and "index < length (operations localResult)"
  shows "\<exists>l. handleParamChange A parseFloat result localResult index field value = Inr l \<and>
    (let originalOp = operations result ! index;
         oldOp = operations localResult ! index;
         newOp = operations l ! index
     in rpm newOp = (if field = Rpm then numValue_of parseFloat value else rpm oldOp) \<and>
        feedRate newOp = (if field = FeedRate then numValue_of parseFloat value else feedRate oldOp) \<and>
        (\<forall>origRpm origFeed newRpm newFeed.
           estimatedTimeSeconds originalOp \<noteq> 0 \<and>
           rpm originalOp = Some origRpm \<and> origRpm \<noteq> 0 \<and>
           feedRate originalOp = Some origFeed \<and> origFeed \<noteq> 0 \<and>
           rpm newOp = Some newRpm \<and> newRpm > 0 \<and>
           feedRate newOp = Some newFeed \<and> newFeed > 0
           \<longrightarrow> estimatedTimeSeconds newOp =
                 fdiv A (Math_round (fmul A
                   (fdiv A (fmul A (fmul A (estimatedTimeSeconds originalOp) origRpm) origFeed)
                      (fmul A newRpm newFeed)) 10)) 10) \<and>
        (or0_opt (rpm newOp) = 0 \<or> or0_opt (feedRate newOp) = 0 \<or>
         estimatedTimeSeconds originalOp = 0 \<or>
         or0_opt (rpm originalOp) = 0 \<or> or0_opt (feedRate originalOp) = 0
           \<longrightarrow> estimatedTimeSeconds newOp = estimatedTimeSeconds oldOp))"
proof -
  let ?cur = "set_field field (numValue_of parseFloat value) (operations localResult ! index)"
  let ?new = "recalc A (operations result ! index) ?cur"
  from handleParamChange_in_range [OF assms, of A parseFloat field "value"]
  obtain l where l: "handleParamChange A parseFloat result localResult index field value = Inr l"
    and ops: "operations l = (operations localResult)[index := ?new]"
    by blast
  have nth: "operations l ! index = ?new"
    using assms(2) by (simp add: ops)
  have unchanged: "estimatedTimeSeconds ?new = estimatedTimeSeconds (operations localResult ! index)"
    if "or0_opt (rpm ?new) = 0 \<or> or0_opt (feedRate ?new) = 0 \<or>
        estimatedTimeSeconds (operations result ! index) = 0 \<or>
        or0_opt (rpm (operations result ! index)) = 0 \<or>
        or0_opt (feedRate (operations result ! index)) = 0"
    using that
    by (auto simp: recalc_time truthy_def truthy_opt_def or0_opt_def or0_def split: option.splits)
  have formula: "estimatedTimeSeconds ?new =
      fdiv A (Math_round (fmul A
        (fdiv A (fmul A (fmul A (estimatedTimeSeconds (operations result ! index)) origRpm) origFeed)
           (fmul A newRpm newFeed)) 10)) 10"
    if "estimatedTimeSeconds (operations result ! index) \<noteq> 0"
      "rpm (operations result ! index) = Some origRpm" "origRpm \<noteq> 0"
      "feedRate (operations result ! index) = Some origFeed" "origFeed \<noteq> 0"
      "rpm ?new = Some newRpm" "newRpm > 0" "feedRate ?new = Some newFeed" "newFeed > 0"
    for origRpm origFeed newRpm newFeed
  proof -
    have "or0_opt (rpm ?cur) = newRpm" "or0_opt (feedRate ?cur) = newFeed"
      using that by (simp_all add: positive_or0_opt)
    with that show ?thesis
      by (simp add: recalc_time truthy_def truthy_opt_def)
  qed
  show ?thesis
    unfolding Let_def
    apply (rule exI [of _ l])
    apply (simp only: nth l)
    using formula unchanged
    apply (simp add: set_field_rpm set_field_feedRate)
    done
qed

text \<open>
  In doubles, the row of 60 s at 1000 rpm and a feed of 0.2 edited to 384 rpm takes
  156.2 s (the quotient is 156.24999999999997; in exact arithmetic it is 156.25, which
  rounds to 156.3), and edited to 0 rpm it keeps its 60 s.
\<close>

theorem handleParamChange_recalculates_witness:
  "(\<exists>l. handleParamChange ieee_double parseFloat_double (double_result [double_row])
            (double_result [double_row]) 0 Rpm ''384'' = Inr l \<and>
        rpm (operations l ! 0) = Some 384 \<and> feedRate (operations l ! 0) = Some (dbl (1 / 5)) \<and>
        estimatedTimeSeconds (operations l ! 0) = dbl (781 / 5)) \<and>
   (\<exists>l. handleParamChange ieee_double parseFloat_double (double_result [double_row])
            (double_result [double_row]) 0 Rpm ''0'' = Inr l \<and>
        rpm (operations l ! 0) = Some 0 \<and> estimatedTimeSeconds (operations l ! 0) = 60)"
proof -
  let ?d = "double_result [double_row]"
  have len: "0 < length (operations ?d)"
    by (simp add: double_result_def)
  have row: "operations ?d ! 0 = double_row"
    by (simp add: double_result_def)
  from handleParamChange_recalculates [OF len len, of ieee_double parseFloat_double Rpm "''384''"]
  obtain l where l: "handleParamChange ieee_double parseFloat_double ?d ?d 0 Rpm ''384'' = Inr l"
    and r: "rpm (operations l ! 0) = Some 384"
    and f: "feedRate (operations l ! 0) = Some (dbl (1 / 5))"
    and t: "\<And>origRpm origFeed newRpm newFeed.
           estimatedTimeSeconds double_row \<noteq> 0 \<and>
           rpm double_row = Some origRpm \<and> origRpm \<noteq> 0 \<and>
           feedRate double_row = Some origFeed \<and> origFeed \<noteq> 0 \<and>
           rpm (operations l ! 0) = Some newRpm \<and> newRpm > 0 \<and>
           feedRate (operations l ! 0) = Some newFeed \<and> newFeed > 0
           \<Longrightarrow> estimatedTimeSeconds (operations l ! 0) =
                 fdiv ieee_double (Math_round (fmul ieee_double
                   (fdiv ieee_double
                      (fmul ieee_double (fmul ieee_double (estimatedTimeSeconds double_row) origRpm)
                         origFeed)
                      (fmul ieee_double newRpm newFeed)) 10)) 10"
    unfolding Let_def row
    by (auto simp: numValue_of_def parseFloat_double_384 double_row_def)
  have "estimatedTimeSeconds (operations l ! 0) =
          fdiv ieee_double (Math_round (fmul ieee_double
            (fdiv ieee_double (fmul ieee_double (fmul ieee_double 60 1000) (dbl (1 / 5)))
               (fmul ieee_double 384 (dbl (1 / 5)))) 10)) 10"
    using t [of 1000 "dbl (1 / 5)" 384 "dbl (1 / 5)"] r f
    by (simp add: double_row_def dbl_1_5)
  then have "estimatedTimeSeconds (operations l ! 0) = dbl (781 / 5)"
    by (simp only: dbl_1_5 row_work_1 row_work_2 row_speed row_time row_time_10
          row_time_round row_time_tenth dbl_156_2)
  with l r f have first:
    "\<exists>l. handleParamChange ieee_double parseFloat_double ?d ?d 0 Rpm ''384'' = Inr l \<and>
        rpm (operations l ! 0) = Some 384 \<and> feedRate (operations l ! 0) = Some (dbl (1 / 5)) \<and>
        estimatedTimeSeconds (operations l ! 0) = dbl (781 / 5)"
    by blast
  from handleParamChange_recalculates [OF len len, of ieee_double parseFloat_double Rpm "''0''"]
  obtain k where k: "handleParamChange ieee_double parseFloat_double ?d ?d 0 Rpm ''0'' = Inr k"
    and r0: "rpm (operations k ! 0) = Some 0"
    and u: "or0_opt (rpm (operations k ! 0)) = 0
            \<Longrightarrow> estimatedTimeSeconds (operations k ! 0) = estimatedTimeSeconds double_row"
    unfolding Let_def row by (auto simp: numValue_of_def parseFloat_double_0)
  have "estimatedTimeSeconds (operations k ! 0) = 60"
    using u r0 by (simp add: or0_opt_def double_row_def)
  with k r0 have
    "\<exists>l. handleParamChange ieee_double parseFloat_double ?d ?d 0 Rpm ''0'' = Inr l \<and>
        rpm (operations l ! 0) = Some 0 \<and> estimatedTimeSeconds (operations l ! 0) = 60"
    by blast
  with first show ?thesis by blast
qed

subsection \<open>The total after an edit\<close>

text \<open>
  C4. Every invocation of \<open>handleParamChange\<close> at an index of the table produces a
  state, and in every state it produces \<open>totalTimeSeconds\<close> is \<open>round(S * 10) / 10\<close>,
  with \<open>S\<close> the sum of the times of the updated operations, added from \<open>0\<close> in the order of
  the table, and every \<open>+\<close>, \<open>*\<close> and \<open>/\<close> the operation of the machine; this is
  \<open>round(10 * S) / 10\<close> when the multiplication commutes, as that of doubles does. In the
  state set for an index inside the original table and past the end of the edited one, the
  total is given by the same formula, the object stored at the index counting as \<open>0\<close>.
\<close>

theorem handleParamChange_total_time:
  "(index < length (operations result) \<and> index < length (operations localResult)
      \<longrightarrow> (\<exists>l. handleParamChange A parseFloat result localResult index field value = Inr l)) \<and>
   (\<forall>l. handleParamChange A parseFloat result localResult index field value = Inr l
      \<longrightarrow> totalTimeSeconds l
            = fdiv A (Math_round
                (fmul A (js_sum A (map estimatedTimeSeconds (operations l))) 10)) 10 \<and>
          ((\<forall>x y. fmul A x y = fmul A y x)
            \<longrightarrow> totalTimeSeconds l
                  = fdiv A (Math_round
                      (fmul A 10 (js_sum A (map estimatedTimeSeconds (operations l))))) 10)) \<and>
   (\<forall>t. handleParamChange A parseFloat result localResult index field value
           = Inl (Sparse_update t)
      \<longrightarrow> t = fdiv A (Math_round
                (fmul A (js_sum A (map estimatedTimeSeconds (operations localResult) @ [0]))
                   10)) 10)"
proof -
  have total: "totalTimeSeconds l
      = fdiv A (Math_round (fmul A (js_sum A (map estimatedTimeSeconds (operations l))) 10)) 10"
    if "handleParamChange A parseFloat result localResult index field value = Inr l" for l
    using that
    by (auto simp: handleParamChange_def Let_def foldl_time_sum js_sum_def split: if_splits)
  have state: "\<exists>l. handleParamChange A parseFloat result localResult index field value = Inr l"
    if "index < length (operations result)" "index < length (operations localResult)"
    using that by (simp add: handleParamChange_def Let_def)
  have commuted: "totalTimeSeconds l
      = fdiv A (Math_round (fmul A 10 (js_sum A (map estimatedTimeSeconds (operations l))))) 10"
    if "handleParamChange A parseFloat result localResult index field value = Inr l"
      "\<forall>x y. fmul A x y = fmul A y x" for l
    using total [OF that(1)] that(2) by simp
  have sparse: "t = fdiv A (Math_round
                  (fmul A (js_sum A (map estimatedTimeSeconds (operations localResult) @ [0]))
                     10)) 10"
    if "handleParamChange A parseFloat result localResult index field value
          = Inl (Sparse_update t)" for t
    using that
    by (auto simp: handleParamChange_def Let_def foldl_time_sum js_sum_def split: if_splits)
  have g1: "index < length (operations result) \<and> index < length (operations localResult)
      \<longrightarrow> (\<exists>l. handleParamChange A parseFloat result localResult index field value = Inr l)"
    using state by blast
  have g2: "\<forall>l. handleParamChange A parseFloat result localResult index field value = Inr l
      \<longrightarrow> totalTimeSeconds l
            = fdiv A (Math_round
                (fmul A (js_sum A (map estimatedTimeSeconds (operations l))) 10)) 10 \<and>
          ((\<forall>x y. fmul A x y = fmul A y x)
            \<longrightarrow> totalTimeSeconds l
                  = fdiv A (Math_round
                      (fmul A 10 (js_sum A (map estimatedTimeSeconds (operations l))))) 10)"
    using total commuted by blast
  have g3: "\<forall>t. handleParamChange A parseFloat result localResult index field value
           = Inl (Sparse_update t)
      \<longrightarrow> t = fdiv A (Math_round
                (fmul A (js_sum A (map estimatedTimeSeconds (operations localResult) @ [0]))
                   10)) 10"
    using sparse by blast
  show ?thesis
    by (intro conjI g1 g2 g3)
qed

text \<open>
  In doubles, rows of 26.48 s, 8.99 s and 1.98 s add up to 37.449999999999996 s, so an edit
  that recalculates nothing sets the total to 37.4 s (the exact sum is 37.45, which rounds
  to 37.5). An edit of the first row when the edited table is empty sets a total of 0 s.
\<close>

theorem handleParamChange_total_time_witness:
  "(\<exists>l. handleParamChange ieee_double parseFloat_double (double_result three_rows)
            (double_result three_rows) 0 Rpm ''100'' = Inr l \<and>
        map estimatedTimeSeconds (operations l)
          = [dbl (662 / 25), dbl (899 / 100), dbl (99 / 50)] \<and>
        totalTimeSeconds l = dbl (187 / 5)) \<and>
   handleParamChange ieee_double parseFloat_double (double_result three_rows)
     (double_result []) 0 Rpm ''100'' = Inl (Sparse_update 0)"
proof -
  let ?d = "double_result three_rows"
  have len: "0 < length (operations ?d)"
    by (simp add: double_result_def three_rows_def)
  from handleParamChange_in_range [OF len len, of ieee_double parseFloat_double Rpm "''100''"]
  obtain l where l: "handleParamChange ieee_double parseFloat_double ?d ?d 0 Rpm ''100'' = Inr l"
    and ops: "operations l = (operations ?d)[0 := recalc ieee_double (operations ?d ! 0)
                (set_field Rpm (numValue_of parseFloat_double ''100'') (operations ?d ! 0))]"
    by blast
  have times: "map estimatedTimeSeconds (operations l)
                 = [dbl (662 / 25), dbl (899 / 100), dbl (99 / 50)]"
    unfolding ops
    by (simp add: double_result_def three_rows_def timed_row_def recalc_time truthy_opt_def)
  from handleParamChange_total_time
         [of 0 ?d ?d ieee_double parseFloat_double Rpm "''100''"] l
  have "totalTimeSeconds l
      = fdiv ieee_double (Math_round (fmul ieee_double 10
          (js_sum ieee_double (map estimatedTimeSeconds (operations l))))) 10"
    using ieee_double_fmul_commute by simp
  then have "totalTimeSeconds l
      = fdiv ieee_double (Math_round (fmul ieee_double
          (js_sum ieee_double [dbl (662 / 25), dbl (899 / 100), dbl (99 / 50)]) 10)) 10"
    unfolding times by (simp only: ieee_double_fmul_commute [of 10])
  then have "totalTimeSeconds l = dbl (187 / 5)"
    by (simp only: js_sum_3 dbl_26_48 dbl_8_99 dbl_1_98 total_sum_1 total_sum_2 total_sum_3
          total_10 total_round total_tenth dbl_37_4)
  with times have first:
    "\<exists>l. handleParamChange ieee_double parseFloat_double ?d ?d 0 Rpm ''100'' = Inr l \<and>
        map estimatedTimeSeconds (operations l)
          = [dbl (662 / 25), dbl (899 / 100), dbl (99 / 50)] \<and>
        totalTimeSeconds l = dbl (187 / 5)"
    by (intro exI [of _ l] conjI l)
  obtain t where t: "handleParamChange ieee_double parseFloat_double ?d (double_result [])
                       0 Rpm ''100'' = Inl (Sparse_update t)"
    by (simp add: handleParamChange_def Let_def double_result_def three_rows_def)
  from handleParamChange_total_time
         [of 0 ?d "double_result []" ieee_double parseFloat_double Rpm "''100''"] t
  have "t = fdiv ieee_double (Math_round (fmul ieee_double
          (js_sum ieee_double (map estimatedTimeSeconds (operations (double_result [])) @ [0]))
          10)) 10"
    by simp
  then have "t = 0"
    by (simp add: double_result_def js_sum_def ieee_double_def dbl_def Math_round_def)
  with t first show ?thesis
    by simp
qed

subsection \<open>Edits do not drift\<close>

text \<open>
  C5. Let the original operation \<open>i\<close> have a nonzero time, rpm and feed rate. After any
  sequence of edits that touches operation \<open>i\<close> at least once, from any edited state of
  the table, the time of operation \<open>i\<close> is determined by the rpm and feed rate it has
  reached, when both are strictly positive: two such sequences reaching the same pair give
  the same time. When the pair reached is the original one, the time is the one the formula
  gives for the original pair, and in exact arithmetic it is within 0.05 s of the original
  time.
\<close>

theorem edits_path_independent:
  assumes "i < length (operations result)"
    and "length (operations local1) = length (operations result)"
    and "length (operations local2) = length (operations result)"
    and "\<exists>e \<in> set es1. fst e = i" and "\<exists>e \<in> set es2. fst e = i"
    and "estimatedTimeSeconds (operations result ! i) \<noteq> 0"
    and "rpm (operations result ! i) = Some origRpm" and "origRpm \<noteq> 0"
    and "feedRate (operations result ! i) = Some origFeed" and "origFeed \<noteq> 0"
    and "rpm (operations (edits A parseFloat result local1 es1) ! i) = Some r" and "r > 0"
    and "feedRate (operations (edits A parseFloat result local1 es1) ! i) = Some f" and "f > 0"
  shows "(rpm (operations (edits A parseFloat result local2 es2) ! i) = Some r \<and>
          feedRate (operations (edits A parseFloat result local2 es2) ! i) = Some f
          \<longrightarrow> estimatedTimeSeconds (operations (edits A parseFloat result local2 es2) ! i)
                = estimatedTimeSeconds (operations (edits A parseFloat result local1 es1) ! i)) \<and>
         (r = origRpm \<and> f = origFeed
          \<longrightarrow> estimatedTimeSeconds (operations (edits A parseFloat result local1 es1) ! i)
                = fdiv A (Math_round (fmul A
                    (fdiv A (fmul A (fmul A (estimatedTimeSeconds (operations result ! i))
                                       origRpm) origFeed)
                       (fmul A origRpm origFeed)) 10)) 10 \<and>
              (A = exact_arith
               \<longrightarrow> \<bar>estimatedTimeSeconds (operations (edits A parseFloat result local1 es1) ! i)
                      - estimatedTimeSeconds (operations result ! i)\<bar> \<le> 1 / 20))"
proof -
  have len1: "i < length (operations local1)" and len2: "i < length (operations local2)"
    using assms(1-3) by simp_all
  have orig: "truthy (estimatedTimeSeconds (operations result ! i))"
    "truthy_opt (rpm (operations result ! i))" "truthy_opt (feedRate (operations result ! i))"
    using assms(6-10) by (simp_all add: truthy_def truthy_opt_def)
  have time: "estimatedTimeSeconds (operations (edits A parseFloat result l es) ! i)
      = fdiv A (Math_round (fmul A
          (fdiv A (fmul A (fmul A (estimatedTimeSeconds (operations result ! i)) origRpm) origFeed)
             (fmul A r f)) 10)) 10"
    if "i < length (operations l)" "\<exists>e \<in> set es. fst e = i"
      "rpm (operations (edits A parseFloat result l es) ! i) = Some r"
      "feedRate (operations (edits A parseFloat result l es) ! i) = Some f"
    for l es
    using edits_time [OF assms(1) that(1,2) orig, of A parseFloat] that(3,4) assms(7,9,12,14)
    by (simp add: positive_or0_opt)
  have first: "estimatedTimeSeconds (operations (edits A parseFloat result local2 es2) ! i)
                = estimatedTimeSeconds (operations (edits A parseFloat result local1 es1) ! i)"
    if "rpm (operations (edits A parseFloat result local2 es2) ! i) = Some r"
       "feedRate (operations (edits A parseFloat result local2 es2) ! i) = Some f"
    using time [OF len2 assms(5) that] time [OF len1 assms(4,11,13)] by simp
  have second: "estimatedTimeSeconds (operations (edits A parseFloat result local1 es1) ! i)
                = fdiv A (Math_round (fmul A
                    (fdiv A (fmul A (fmul A (estimatedTimeSeconds (operations result ! i))
                                       origRpm) origFeed)
                       (fmul A origRpm origFeed)) 10)) 10"
    if "r = origRpm" "f = origFeed"
    using time [OF len1 assms(4,11,13)] that by simp
  have third: "\<bar>estimatedTimeSeconds (operations (edits A parseFloat result local1 es1) ! i)
                 - estimatedTimeSeconds (operations result ! i)\<bar> \<le> 1 / 20"
    if "r = origRpm" "f = origFeed" "A = exact_arith"
  proof -
    have "estimatedTimeSeconds (operations result ! i) * origRpm * origFeed
            / (origRpm * origFeed)
            = estimatedTimeSeconds (operations result ! i)"
      using assms(8,10) by simp
    with second [OF that(1,2)]
    have "estimatedTimeSeconds (operations (edits A parseFloat result local1 es1) ! i)
            = Math_round (estimatedTimeSeconds (operations result ! i) * 10) / 10"
      unfolding that(3) exact_arith_simps by (simp only:)
    then show ?thesis
      by (simp only: Math_round_tenth)
  qed
  from first second third show ?thesis by blast
qed

text \<open>
  In exact arithmetic, two sequences of edits that bring the first row of the sample back to
  1000 rpm and a feed of 0.2; in doubles, the row of 60 s edited to 384 rpm and back to
  1000 rpm, which has its 60 s again.
\<close>

theorem edits_path_independent_witness:
  "estimatedTimeSeconds (operations (edits exact_arith parseFloat_unsigned demo_result demo_result
       [(0, FeedRate, ''0.2''), (1, Rpm, ''500''), (0, Rpm, ''1000'')]) ! 0)
   = estimatedTimeSeconds (operations (edits exact_arith parseFloat_unsigned demo_result demo_result
       [(0, Rpm, ''2000''), (0, FeedRate, ''0.4''), (0, Rpm, ''1000''), (0, FeedRate, ''0.2'')]) ! 0)
   \<and> \<bar>estimatedTimeSeconds (operations (edits exact_arith parseFloat_unsigned demo_result demo_result
       [(0, Rpm, ''2000''), (0, FeedRate, ''0.4''), (0, Rpm, ''1000''), (0, FeedRate, ''0.2'')]) ! 0)
       - estimatedTimeSeconds (operations demo_result ! 0)\<bar> \<le> 1 / 20
   \<and> estimatedTimeSeconds (operations (edits ieee_double parseFloat_double
         (double_result [double_row]) (double_result [double_row])
         [(0, Rpm, ''384''), (0, Rpm, ''1000'')]) ! 0) = 60"
proof -
  let ?es1 = "[(0::nat, Rpm, ''2000''), (0, FeedRate, ''0.4''), (0, Rpm, ''1000''), (0, FeedRate, ''0.2'')]"
  let ?es2 = "[(0::nat, FeedRate, ''0.2''), (1, Rpm, ''500''), (0, Rpm, ''1000'')]"
  let ?es3 = "[(0::nat, Rpm, ''384''), (0, Rpm, ''1000'')]"
  let ?d = "double_result [double_row]"
  have len: "0 < length (operations demo_result)"
    by (simp add: demo_result_def demo_ops_def)
  have same: "length (operations demo_result) = length (operations demo_result)"
    by simp
  have e1: "\<exists>e \<in> set ?es1. fst e = 0" and e2: "\<exists>e \<in> set ?es2. fst e = 0"
    and e3: "\<exists>e \<in> set ?es3. fst e = 0"
    by simp_all
  have orig: "estimatedTimeSeconds (operations demo_result ! 0) \<noteq> 0"
    "rpm (operations demo_result ! 0) = Some 1000" "(1000::real) \<noteq> 0"
    "feedRate (operations demo_result ! 0) = Some (1 / 5)" "(1 / 5 :: real) \<noteq> 0"
    by (simp_all add: demo_result_def demo_ops_def)
  have r1: "rpm (operations (edits exact_arith parseFloat_unsigned demo_result demo_result ?es1) ! 0) = Some 1000"
    by (simp add: edits_def edit_step_same edit_step_other set_field_rpm set_field_feedRate parse_simps demo_result_def demo_ops_def)
  have f1: "feedRate (operations (edits exact_arith parseFloat_unsigned demo_result demo_result ?es1) ! 0) = Some (1 / 5)"
    by (simp add: edits_def edit_step_same edit_step_other set_field_rpm set_field_feedRate parse_simps demo_result_def demo_ops_def)
  have r2: "rpm (operations (edits exact_arith parseFloat_unsigned demo_result demo_result ?es2) ! 0) = Some 1000"
    by (simp add: edits_def edit_step_same edit_step_other set_field_rpm set_field_feedRate parse_simps demo_result_def demo_ops_def)
  have f2: "feedRate (operations (edits exact_arith parseFloat_unsigned demo_result demo_result ?es2) ! 0) = Some (1 / 5)"
    by (simp add: edits_def edit_step_same edit_step_other set_field_rpm set_field_feedRate parse_simps demo_result_def demo_ops_def)
  from edits_path_independent [OF len same same e1 e2 orig r1 _ f1 _] r2 f2
  have exact: "estimatedTimeSeconds (operations (edits exact_arith parseFloat_unsigned demo_result demo_result ?es2) ! 0)
      = estimatedTimeSeconds (operations (edits exact_arith parseFloat_unsigned demo_result demo_result ?es1) ! 0)
      \<and> \<bar>estimatedTimeSeconds (operations (edits exact_arith parseFloat_unsigned demo_result demo_result ?es1) ! 0)
          - estimatedTimeSeconds (operations demo_result ! 0)\<bar> \<le> 1 / 20"
    by simp
  have lend: "0 < length (operations ?d)" and samed: "length (operations ?d) = length (operations ?d)"
    by (simp_all add: double_result_def)
  have origd: "estimatedTimeSeconds (operations ?d ! 0) \<noteq> 0"
    "rpm (operations ?d ! 0) = Some 1000" "(1000::real) \<noteq> 0"
    "feedRate (operations ?d ! 0) = Some (dbl (1 / 5))" "dbl (1 / 5) \<noteq> 0"
    by (simp_all add: double_result_def double_row_def dbl_1_5)
  have r3: "rpm (operations (edits ieee_double parseFloat_double ?d ?d ?es3) ! 0) = Some 1000"
    by (simp add: edits_def edit_step_same set_field_rpm numValue_of_def
          parseFloat_double_1000 double_result_def)
  have f3: "feedRate (operations (edits ieee_double parseFloat_double ?d ?d ?es3) ! 0)
              = Some (dbl (1 / 5))"
    by (simp add: edits_def edit_step_same set_field_feedRate numValue_of_def
          double_result_def double_row_def)
  have pos: "(0::real) < 1000" "0 < dbl (1 / 5)"
    by (simp_all add: dbl_1_5)
  from edits_path_independent [OF lend samed samed e3 e3 origd r3 pos(1) f3 pos(2)]
  have "estimatedTimeSeconds (operations (edits ieee_double parseFloat_double ?d ?d ?es3) ! 0)
      = fdiv ieee_double (Math_round (fmul ieee_double
          (fdiv ieee_double
             (fmul ieee_double (fmul ieee_double (estimatedTimeSeconds (operations ?d ! 0)) 1000)
                (dbl (1 / 5)))
             (fmul ieee_double 1000 (dbl (1 / 5)))) 10)) 10"
    by simp
  also have "estimatedTimeSeconds (operations ?d ! 0) = 60"
    by (simp add: double_result_def double_row_def)
  finally have "estimatedTimeSeconds (operations (edits ieee_double parseFloat_double ?d ?d ?es3) ! 0) = 60"
    by (simp only: dbl_1_5 row_work_1 row_work_2 back_speed back_time back_time_10 back_round
          back_tenth)
  with exact show ?thesis
    by simp
qed

section \<open>Properties of the split\<close>

lemma split_loop_snoc:
  "split_loop A lc (ops @ [op]) = split_op A lc (split_loop A lc ops) op"
  by (simp add: split_loop_def)

lemma split_loop_Nil: "split_loop A lc [] = \<lparr>l1 = 0, l2 = 0, isSide2 = False\<rparr>"
  by (simp add: split_loop_def)

lemma split_op_isSide2:
  "isSide2 (split_op A lc st op) = (isSide2 st \<or> trigger lc op)"
  by (auto simp: split_op_def trigger_def Let_def)

lemma split_op_l1:
  "l1 (split_op A lc st op) =
     (if flip_keyword (lc (name op)) \<or> \<not> (isSide2 st \<or> trigger lc op)
      then fadd A (l1 st) (estimatedTimeSeconds op) else l1 st)"
  by (auto simp: split_op_def trigger_def Let_def)

lemma split_op_l2:
  "l2 (split_op A lc st op) =
     (if flip_keyword (lc (name op)) \<or> \<not> (isSide2 st \<or> trigger lc op)
      then l2 st else fadd A (l2 st) (estimatedTimeSeconds op))"
  by (auto simp: split_op_def trigger_def Let_def)

lemma split_loop_isSide2: "isSide2 (split_loop A lc ops) = list_ex (trigger lc) ops"
  by (induction ops rule: rev_induct)
     (auto simp: split_loop_Nil split_loop_snoc split_op_isSide2 list_ex_iff)

lemma in_L1_append_old: "i < length ops \<Longrightarrow> in_L1 lc (ops @ [op]) i = in_L1 lc ops i"
  by (simp add: in_L1_def nth_append)

lemma in_L1_append_new:
  "in_L1 lc (ops @ [op]) (length ops)
     = (flip_keyword (lc (name op)) \<or> \<not> (list_ex (trigger lc) ops \<or> trigger lc op))"
  by (auto simp: in_L1_def list_ex_iff)

lemma nths_agree:
  assumes "\<And>i. i < length xs \<Longrightarrow> (i \<in> S) = (i \<in> T)"
  shows "nths xs S = nths xs T"
proof -
  have "filter (\<lambda>p. snd p \<in> S) (zip xs [0..<length xs])
          = filter (\<lambda>p. snd p \<in> T) (zip xs [0..<length xs])"
    by (rule filter_cong) (auto simp: assms dest!: set_zip_rightD)
  then show ?thesis
    by (simp add: nths_def)
qed

lemma nths_snoc:
  "nths (xs @ [x]) S = nths xs S @ (if length xs \<in> S then [x] else [])"
  by (simp add: nths_append)

lemma nths_in_L1_snoc:
  "nths (ops @ [op]) {i. in_L1 lc (ops @ [op]) i}
     = nths ops {i. in_L1 lc ops i}
       @ (if flip_keyword (lc (name op)) \<or> \<not> (list_ex (trigger lc) ops \<or> trigger lc op)
          then [op] else [])"
proof -
  have "nths ops {i. in_L1 lc (ops @ [op]) i} = nths ops {i. in_L1 lc ops i}"
    by (rule nths_agree) (simp add: in_L1_append_old)
  then show ?thesis
    by (simp add: nths_snoc in_L1_append_new)
qed

lemma nths_not_in_L1_snoc:
  "nths (ops @ [op]) {i. \<not> in_L1 lc (ops @ [op]) i}
     = nths ops {i. \<not> in_L1 lc ops i}
       @ (if flip_keyword (lc (name op)) \<or> \<not> (list_ex (trigger lc) ops \<or> trigger lc op)
          then [] else [op])"
proof -
  have "nths ops {i. \<not> in_L1 lc (ops @ [op]) i} = nths ops {i. \<not> in_L1 lc ops i}"
    by (rule nths_agree) (simp add: in_L1_append_old)
  then show ?thesis
    by (simp add: nths_snoc in_L1_append_new)
qed

lemma split_loop_l1:
  "l1 (split_loop A lc ops)
     = js_sum A (map estimatedTimeSeconds (nths ops {i. in_L1 lc ops i}))"
proof (induction ops rule: rev_induct)
  case Nil
  show ?case by (simp add: split_loop_Nil js_sum_Nil)
next
  case (snoc op ops)
  then show ?case
    by (simp add: split_loop_snoc split_op_l1 split_loop_isSide2 nths_in_L1_snoc js_sum_snoc)
qed

lemma split_loop_l2:
  "l2 (split_loop A lc ops)
     = js_sum A (map estimatedTimeSeconds (nths ops {i. \<not> in_L1 lc ops i}))"
proof (induction ops rule: rev_induct)
  case Nil
  show ?case by (simp add: split_loop_Nil js_sum_Nil)
next
  case (snoc op ops)
  then show ?case
    by (simp add: split_loop_snoc split_op_l2 split_loop_isSide2 nths_not_in_L1_snoc js_sum_snoc)
qed

lemma split_loop_total:
  "l1 (split_loop exact_arith lc ops) + l2 (split_loop exact_arith lc ops)
     = sum_list (map estimatedTimeSeconds ops)"
  by (induction ops rule: rev_induct)
     (auto simp: split_loop_Nil split_loop_snoc split_op_l1 split_op_l2)

lemma sample_keywords:
  "\<not> side2_keyword (toLowerCase_ascii ''Flip'')" "flip_keyword (toLowerCase_ascii ''Flip'')"
  "\<not> side2_keyword (toLowerCase_ascii ''Flip back'')"
  "flip_keyword (toLowerCase_ascii ''Flip back'')"
  "\<not> side2_keyword (toLowerCase_ascii ''Face'')" "\<not> flip_keyword (toLowerCase_ascii ''Face'')"
  "\<not> side2_keyword (toLowerCase_ascii ''Rough'')" "\<not> flip_keyword (toLowerCase_ascii ''Rough'')"
  "\<not> side2_keyword (toLowerCase_ascii ''Finish'')"
  "\<not> flip_keyword (toLowerCase_ascii ''Finish'')"
  "side2_keyword (toLowerCase_ascii ''OP20 Face'')"
  "\<not> flip_keyword (toLowerCase_ascii ''OP20 Face'')"
  "\<not> side2_keyword (toLowerCase_ascii ''Bore'')" "\<not> flip_keyword (toLowerCase_ascii ''Bore'')"
  by code_simp+

lemmas split_simps = split_loop_def split_op_def Let_def timed_row_def sample_keywords

lemma split_loop_two_flips:
  "split_loop ieee_double toLowerCase_ascii two_flips = \<lparr>l1 = 12, l2 = 0, isSide2 = True\<rparr>"
  by (simp add: split_simps two_flips_def flip_sum_1 flip_sum_2)

lemma spec_split_two_flips:
  "spec_split ieee_double toLowerCase_ascii False (0, 0) two_flips = (5, 7)"
  by (simp add: two_flips_def Let_def sample_keywords flip_sum_1 flip_sum_3)

lemma split_loop_tie_ops:
  "split_loop ieee_double toLowerCase_ascii tie_ops
     = \<lparr>l1 = 7881299347898367 / 2251799813685248, l2 = 2, isSide2 = True\<rparr>"
  by (simp add: split_simps tie_ops_def dbl_0_7 dbl_1_4 tie_sum_1 tie_sum_2 tie_sum_3 tie_sum_4)

lemma split_loop_drift_ops:
  "split_loop ieee_double toLowerCase_ascii drift_ops
     = \<lparr>l1 = 3602879701896397 / 36028797018963968,
        l2 = 2476979795053773 / 2251799813685248, isSide2 = True\<rparr>"
  by (simp add: split_simps drift_ops_def dbl_0_1 drift_sum_1 drift_sum_2)

lemma js_sum_drift_ops:
  "js_sum ieee_double (map estimatedTimeSeconds drift_ops)
     = 5404319552844595 / 4503599627370496"
  by (simp add: js_sum_def drift_ops_def timed_row_def dbl_0_1 drift_sum_1 drift_sum_4
        drift_sum_5)

text \<open>
  C3 (as amended). Every operation's time is added to exactly one of the buckets L1 and L2:
  an operation whose lowercased name holds a flip keyword is always added to L1, and any
  other operation is added to L2 when it or an earlier operation holds a flip or side-2
  keyword, and to L1 otherwise. Each bucket is the sum of its times, added from \<open>0\<close> in the
  order of the table by the \<open>+\<close> of the machine, and the values returned are the two buckets,
  each rounded to the nearest integer. In exact arithmetic L1 + L2 before the rounding is
  the sum of the times of all operations.
\<close>

theorem splitTimes_buckets:
  "l1 (split_loop A toLowerCase ops)
     = js_sum A (map estimatedTimeSeconds (nths ops {i. in_L1 toLowerCase ops i})) \<and>
   l2 (split_loop A toLowerCase ops)
     = js_sum A (map estimatedTimeSeconds (nths ops {i. \<not> in_L1 toLowerCase ops i})) \<and>
   splitTimes A toLowerCase ops
     = (Math_round (l1 (split_loop A toLowerCase ops)),
        Math_round (l2 (split_loop A toLowerCase ops))) \<and>
   (A = exact_arith
    \<longrightarrow> l1 (split_loop A toLowerCase ops) + l2 (split_loop A toLowerCase ops)
          = sum_list (map estimatedTimeSeconds ops))"
  using split_loop_l1 [of A toLowerCase ops] split_loop_l2 [of A toLowerCase ops]
    split_loop_total [of toLowerCase ops]
  by (simp add: splitTimes_def Let_def)

text \<open>
  The sample estimate in exact arithmetic, and in doubles the operations of 0.7 s, 1.4 s and
  1.4 s on the first side, whose bucket is 3.4999999999999996 s and is returned as 3.
\<close>

theorem splitTimes_buckets_witness:
  "splitTimes exact_arith toLowerCase_ascii demo_ops = (75, 13) \<and>
   l1 (split_loop exact_arith toLowerCase_ascii demo_ops)
     + l2 (split_loop exact_arith toLowerCase_ascii demo_ops) = 175 / 2 \<and>
   splitTimes ieee_double toLowerCase_ascii tie_ops = (3, 2)"
proof -
  have "splitTimes exact_arith toLowerCase_ascii demo_ops = (75, 13)"
    by code_simp
  moreover have "sum_list (map estimatedTimeSeconds demo_ops) = 175 / 2"
    by (simp add: demo_ops_def)
  moreover have "splitTimes ieee_double toLowerCase_ascii tie_ops = (3, 2)"
    using splitTimes_buckets [of ieee_double toLowerCase_ascii tie_ops]
    by (simp add: split_loop_tie_ops tie_round_1 tie_round_2)
  ultimately show ?thesis
    using splitTimes_buckets [of exact_arith toLowerCase_ascii demo_ops] by simp
qed

text \<open>
  C3 as the specification words it fails twice. The second of two flip operations comes after
  a flip and is still added to L1. And in doubles the buckets do not add up to the sum of the
  times: with 0.1 s on the first side and 0.1 s and 1 s on the second, L1 + L2 is
  1.2000000000000002 s in doubles while the times add up to 1.2 s, and the exact sum of the
  two buckets is not the exact sum of the times either.
\<close>

theorem splitTimes_spec_counterexample:
  "(l1 (split_loop ieee_double toLowerCase_ascii two_flips),
    l2 (split_loop ieee_double toLowerCase_ascii two_flips))
     \<noteq> spec_split ieee_double toLowerCase_ascii False (0, 0) two_flips \<and>
   l1 (split_loop ieee_double toLowerCase_ascii two_flips) = 12 \<and>
   l2 (split_loop ieee_double toLowerCase_ascii two_flips) = 0 \<and>
   spec_split ieee_double toLowerCase_ascii False (0, 0) two_flips = (5, 7) \<and>
   fadd ieee_double (l1 (split_loop ieee_double toLowerCase_ascii drift_ops))
       (l2 (split_loop ieee_double toLowerCase_ascii drift_ops))
     \<noteq> js_sum ieee_double (map estimatedTimeSeconds drift_ops) \<and>
   l1 (split_loop ieee_double toLowerCase_ascii drift_ops)
       + l2 (split_loop ieee_double toLowerCase_ascii drift_ops)
     \<noteq> sum_list (map estimatedTimeSeconds drift_ops)"
proof -
  have "sum_list (map estimatedTimeSeconds drift_ops) = 21617278211378381 / 18014398509481984"
    by (simp add: drift_ops_def timed_row_def dbl_0_1)
  then show ?thesis
    by (simp add: split_loop_two_flips spec_split_two_flips split_loop_drift_ops
          js_sum_drift_ops drift_sum_3)
qed

section \<open>Properties of the cost calculation\<close>






section \<open>Properties of the history\<close>

lemma getHistory_after_setItem:
  "setItem st STORAGE_KEY (History_JSON h) = Inr st' \<Longrightarrow> getHistory st' = h"
  by (auto simp: setItem_def getHistory_def getHistory_try_def getItem_def split: if_splits)

lemma setItem_Inr:
  "setItem st key v = Inr st' \<longleftrightarrow>
     \<not> access_denied st \<and> fits st v \<and> st' = st\<lparr>items := (items st)(key \<mapsto> v)\<rparr>"
  by (auto simp: setItem_def)

lemma setItem_Inl:
  "(\<exists>e. setItem st key v = Inl e) \<longleftrightarrow> access_denied st \<or> \<not> fits st v"
  by (auto simp: setItem_def)

lemma getHistory_demo_storage: "getHistory (demo_storage h) = h"
  by (simp add: getHistory_def getHistory_try_def getItem_def demo_storage_def)

lemma demo_storage_open: "\<not> access_denied (demo_storage h)" "fits (demo_storage h) v"
  by (simp_all add: demo_storage_def)

text \<open>
  C6. A call of \<open>saveHistoryItem\<close> succeeds exactly when the storage can be written and
  the new text fits. The list it then writes under \<open>lathe_estimator_history\<close> is the new
  item followed by the first nine items of the list \<open>getHistory\<close> read before: the new
  item prepended and the result cut to \<open>MAX_ITEMS = 10\<close>. So the stored history has at most
  10 items and the newest one is first.
\<close>

theorem saveHistoryItem_prepends:
  "let newItem = newItem_of compressImage now_id now_ts res cfg img;
       written = take MAX_ITEMS (newItem # getHistory st);
       outcome = saveHistoryItem compressImage now_id now_ts st res cfg img
   in (fst outcome = Saved \<longleftrightarrow> \<not> access_denied st \<and> fits st (History_JSON written)) \<and>
      (fst outcome = Saved \<longrightarrow>
         items (snd outcome) STORAGE_KEY = Some (History_JSON written) \<and>
         getHistory (snd outcome) = written \<and>
         written = newItem # take 9 (getHistory st) \<and>
         length written \<le> 10 \<and>
         hd written = newItem)"
proof -
  let ?new = "newItem_of compressImage now_id now_ts res cfg img"
  let ?written = "take MAX_ITEMS (?new # getHistory st)"
  have w: "?written = ?new # take 9 (getHistory st)"
    by (simp add: MAX_ITEMS_def take_Cons')
  show ?thesis
  proof (cases "setItem st STORAGE_KEY (History_JSON ?written)")
    case (Inl e)
    then have "access_denied st \<or> \<not> fits st (History_JSON ?written)"
      using setItem_Inl [of st STORAGE_KEY "History_JSON ?written"] by blast
    with Inl show ?thesis
      by (auto simp: saveHistoryItem_def Let_def)
  next
    case (Inr st')
    then have ok: "\<not> access_denied st" "fits st (History_JSON ?written)"
      and st': "st' = st\<lparr>items := (items st)(STORAGE_KEY \<mapsto> History_JSON ?written)\<rparr>"
      by (simp_all add: setItem_Inr)
    have out: "saveHistoryItem compressImage now_id now_ts st res cfg img = (Saved, st')"
      using Inr by (simp add: saveHistoryItem_def Let_def)
    have "getHistory st' = ?written"
      using Inr by (rule getHistory_after_setItem)
    moreover have "items st' STORAGE_KEY = Some (History_JSON ?written)"
      by (simp add: st')
    moreover have "length ?written \<le> 10"
      by (simp add: MAX_ITEMS_def)
    ultimately show ?thesis
      unfolding Let_def out using ok w by simp
  qed
qed

theorem saveHistoryItem_prepends_witness:
  "fst (saveHistoryItem demo_compress 11 12
          (demo_storage (map demo_item [10, 9, 8, 7, 6, 5, 4, 3, 2, 1]))
          demo_result demo_config ''data:image/png;base64,CCCC'') = Saved \<and>
   getHistory (snd (saveHistoryItem demo_compress 11 12
          (demo_storage (map demo_item [10, 9, 8, 7, 6, 5, 4, 3, 2, 1]))
          demo_result demo_config ''data:image/png;base64,CCCC''))
     = newItem_of demo_compress 11 12 demo_result demo_config ''data:image/png;base64,CCCC''
       # map demo_item [10, 9, 8, 7, 6, 5, 4, 3, 2]"
  using saveHistoryItem_prepends [of demo_compress 11 12 demo_result demo_config
      "''data:image/png;base64,CCCC''" "demo_storage (map demo_item [10, 9, 8, 7, 6, 5, 4, 3, 2, 1])"]
  by (simp add: Let_def getHistory_demo_storage demo_storage_open)

text \<open>
  C10. \<open>getHistory\<close> always returns a list, and the empty one when the storage cannot be
  read, holds nothing under the key, or holds text that does not parse. For every id,
  \<open>deleteHistoryItem\<close> returns and stores the history read before with exactly the items
  of that id removed, the others in their order; when the storage throws it returns the
  empty list and the storage is as before.
\<close>

theorem history_read_delete:
  "(access_denied st \<or> items st STORAGE_KEY = None \<or>
    items st STORAGE_KEY = Some Empty_text \<or> items st STORAGE_KEY = Some Not_JSON
      \<longrightarrow> getHistory st = []) \<and>
   (\<forall>e. getHistory_try st = Inl e \<longrightarrow> getHistory st = []) \<and>
   (let updated = filter (\<lambda>item. item_id item \<noteq> ident) (getHistory st)
    in (\<not> access_denied st \<and> fits st (History_JSON updated)
          \<longrightarrow> deleteHistoryItem st ident
                = (updated, st\<lparr>items := (items st)(STORAGE_KEY \<mapsto> History_JSON updated)\<rparr>) \<and>
              getHistory (snd (deleteHistoryItem st ident)) = updated) \<and>
       (access_denied st \<or> \<not> fits st (History_JSON updated)
          \<longrightarrow> deleteHistoryItem st ident = ([], st)) \<and>
       subseq updated (getHistory st) \<and>
       set updated = {item \<in> set (getHistory st). item_id item \<noteq> ident})"
proof -
  have empty: "getHistory st = []"
    if "access_denied st \<or> items st STORAGE_KEY = None \<or>
        items st STORAGE_KEY = Some Empty_text \<or> items st STORAGE_KEY = Some Not_JSON"
    using that by (auto simp: getHistory_def getHistory_try_def getItem_def)
  have caught: "getHistory st = []" if "getHistory_try st = Inl e" for e
    using that by (simp add: getHistory_def)
  let ?updated = "filter (\<lambda>item. item_id item \<noteq> ident) (getHistory st)"
  let ?st' = "st\<lparr>items := (items st)(STORAGE_KEY \<mapsto> History_JSON ?updated)\<rparr>"
  have stored: "deleteHistoryItem st ident = (?updated, ?st') \<and>
      getHistory (snd (deleteHistoryItem st ident)) = ?updated"
    if "\<not> access_denied st \<and> fits st (History_JSON ?updated)"
  proof -
    from that have s: "setItem st STORAGE_KEY (History_JSON ?updated) = Inr ?st'"
      by (simp add: setItem_Inr)
    then have "deleteHistoryItem st ident = (?updated, ?st')"
      by (simp add: deleteHistoryItem_def Let_def)
    with getHistory_after_setItem [OF s] show ?thesis by simp
  qed
  have failed: "deleteHistoryItem st ident = ([], st)"
    if "access_denied st \<or> \<not> fits st (History_JSON ?updated)"
    using that by (auto simp: deleteHistoryItem_def Let_def setItem_def)
  have "subseq ?updated (getHistory st)"
    by simp
  moreover have "set ?updated = {item \<in> set (getHistory st). item_id item \<noteq> ident}"
    by simp
  ultimately show ?thesis
    unfolding Let_def using empty caught stored failed by blast
qed

theorem history_read_delete_witness:
  "getHistory ((demo_storage [demo_item 5])\<lparr>access_denied := True\<rparr>) = [] \<and>
   getHistory ((demo_storage [])\<lparr>items := [STORAGE_KEY \<mapsto> Not_JSON]\<rparr>) = [] \<and>
   deleteHistoryItem ((demo_storage [demo_item 5])\<lparr>access_denied := True\<rparr>) ''5''
     = ([], (demo_storage [demo_item 5])\<lparr>access_denied := True\<rparr>) \<and>
   deleteHistoryItem (demo_storage [demo_item 5, demo_item 7, demo_item 5, demo_item 9]) ''5''
     = ([demo_item 7, demo_item 9],
        (demo_storage [demo_item 5, demo_item 7, demo_item 5, demo_item 9])
          \<lparr>items := (items (demo_storage [demo_item 5, demo_item 7, demo_item 5, demo_item 9]))
             (STORAGE_KEY \<mapsto> History_JSON [demo_item 7, demo_item 9])\<rparr>)"
proof -
  have ids: "item_id (demo_item 5) = ''5''" "item_id (demo_item 7) = ''7''"
    "item_id (demo_item 9) = ''9''"
    by code_simp+
  show ?thesis
    using history_read_delete
        [of "(demo_storage [demo_item 5])\<lparr>access_denied := True\<rparr>" "''5''"]
      history_read_delete
        [of "(demo_storage [])\<lparr>items := [STORAGE_KEY \<mapsto> Not_JSON]\<rparr>" "''5''"]
      history_read_delete
        [of "demo_storage [demo_item 5, demo_item 7, demo_item 5, demo_item 9]" "''5''"]
    by (simp add: Let_def getHistory_demo_storage demo_storage_open ids)
qed

section \<open>Properties of the analysis\<close>

lemma getEnvApiKey_none:
  assumes "\<not> truthy_read (import_meta_env_VITE_API_KEY env)"
    and "\<not> truthy_read (process_env_VITE_API_KEY env)"
    and "\<not> truthy_read (process_env_REACT_APP_API_KEY env)"
    and "\<not> truthy_read (process_env_API_KEY env)"
    and "\<not> truthy_read (window_API_KEY env)"
  shows "getEnvApiKey env = []"
  using assms by (simp add: getEnvApiKey_def)

lemma truthy_read_text: "truthy_read r \<Longrightarrow> read_text r \<noteq> [] \<and> r \<noteq> Read_throws"
  by (auto simp: truthy_read_def read_text_def split: env_read.splits option.splits)

lemma API_KEY_MISSING_prefix: "prefix ''API_KEY_MISSING'' API_KEY_MISSING_message"
  by (simp add: API_KEY_MISSING_message_def)

lemma PDF_FAILED_prefix: "prefix ''PDF'' PDF_FAILED_message"
  by (simp add: PDF_FAILED_message_def)

lemma analyzeBlueprint_requests:
  "snd (analyzeBlueprint trim env gen parse img mime config)
     = (if effectiveApiKey trim env config = [] then []
        else [\<lparr>req_apiKey = effectiveApiKey trim env config, req_model = ''gemini-2.5-flash'',
               req_data = img, req_mimeType = mime\<rparr>])"
  by (simp add: analyzeBlueprint_def Let_def split: gen_outcome.splits option.splits sum.splits)

lemma analyzeBlueprint_missing:
  assumes "effectiveApiKey trim env config = []"
  shows "(\<exists>e m. fst (analyzeBlueprint trim env gen parse img mime config) = Inl e \<and>
            err_message e = Some m \<and> prefix ''API_KEY_MISSING'' m) \<and>
         snd (analyzeBlueprint trim env gen parse img mime config) = []"
  using assms API_KEY_MISSING_prefix by (simp add: analyzeBlueprint_def new_Error_def)

lemma effectiveApiKey_env:
  assumes "apiKey config = None \<or> (\<exists>k. apiKey config = Some k \<and> trim k = [])"
  shows "effectiveApiKey trim env config = getEnvApiKey env"
  using assms by (auto simp: effectiveApiKey_def)

lemma error_message_cases:
  "error_message err \<in> {MSG_API_KEY, MSG_BUSY, MSG_PDF, MSG_DEFAULT}"
  by (simp add: error_message_def Let_def)

lemma trim_spaces_examples:
  "trim_spaces ''   '' = []" "trim_spaces ''  key-from-ui '' = ''key-from-ui''"
  by (simp_all add: trim_spaces_def)

lemma error_message_progress_event: "error_message progress_event = MSG_DEFAULT"
  by (simp add: error_message_def progress_event_def)

subsection \<open>Data URLs\<close>

lemma base64_encode_examples:
  "base64_encode ''Man'' = ''TWFu''" "base64_encode ''Ma'' = ''TWE=''"
  "base64_encode ''M'' = ''TQ==''" "base64_encode ''foobar'' = ''Zm9vYmFy''"
  "base64_encode [CHR 0x89, CHR ''P'', CHR ''N'', CHR ''G''] = ''iVBORw==''"
  "base64_encode ''JPEG(image of page one)'' = ''SlBFRyhpbWFnZSBvZiBwYWdlIG9uZSk=''"
  by code_simp+

lemma b64_char_not_comma: "n < 64 \<Longrightarrow> b64_char n \<noteq> CHR '',''"
proof -
  let ?alphabet = "''ABCDEFGHIJKLMNOPQRSTUVWXYZabcdefghijklmnopqrstuvwxyz0123456789+/''"
  assume "n < 64"
  then have "n < length ?alphabet"
    by simp
  then have "?alphabet ! n \<in> set ?alphabet"
    by (rule nth_mem)
  moreover have "CHR '','' \<notin> set ?alphabet"
    by simp
  ultimately show ?thesis
    unfolding b64_char_def by metis
qed

lemma comma_not_b64_char: "n < 64 \<Longrightarrow> CHR '','' \<noteq> b64_char n"
  using b64_char_not_comma [of n] by auto

lemma sextets:
  "(of_char a :: nat) div 4 < 64" "(of_char a :: nat) mod 4 * 16 < 64"
  "(of_char a :: nat) mod 4 * 16 + of_char b div 16 < 64"
  "(of_char b :: nat) mod 16 * 4 < 64" "(of_char b :: nat) mod 16 * 4 + of_char c div 64 < 64"
  "(of_char c :: nat) mod 64 < 64"
  using nat_of_char_less_256 [of a] nat_of_char_less_256 [of b] nat_of_char_less_256 [of c]
  by arith+

lemma base64_encode_no_comma: "CHR '','' \<notin> set (base64_encode bytes)"
  by (induction bytes rule: base64_encode.induct)
     (simp_all add: Let_def comma_not_b64_char sextets)

lemma split_str_no_sep: "sep \<notin> set s \<Longrightarrow> split_str sep s = [s]"
  by (induction s) auto

lemma split_str_append:
  "sep \<notin> set h \<Longrightarrow> split_str sep (h @ sep # p) = h # split_str sep p"
  by (induction h) auto

lemma after_comma_payload:
  assumes "CHR '','' \<notin> set h" and "CHR '','' \<notin> set p"
  shows "after_comma (h @ CHR '','' # p) = Some p"
  using assms by (simp add: after_comma_def split_str_append split_str_no_sep)

lemma after_comma_data_url:
  assumes "CHR '','' \<notin> set media"
  shows "after_comma (data_url media bytes) = Some (base64_encode bytes)"
proof -
  have "data_url media bytes
          = (''data:'' @ media @ '';base64'') @ CHR '','' # base64_encode bytes"
    by (simp add: data_url_def)
  moreover have "CHR '','' \<notin> set (''data:'' @ media @ '';base64'')"
    using assms by simp
  ultimately show ?thesis
    by (simp only: after_comma_payload base64_encode_no_comma not_False_eq_True)
qed

lemma pdf_first_page_jpeg_Some:
  "pdf_first_page_jpeg P file = Some u \<longleftrightarrow>
     (\<exists>page pages picture. \<not> arrayBuffer_rejects P file \<and>
        getDocument P (file_bytes file) = Some (page # pages) \<and> canvas_2d P \<and>
        render_page P page = Some picture \<and> u = data_url ''image/jpeg'' (toJPEG P picture))"
  by (auto simp: pdf_first_page_jpeg_def split: option.splits list.splits)

lemma demo_conversion:
  "fileToGenerativePart demo_files part_png
     = Resolved \<lparr>base64 = Some ''iVBORw=='', mimeType = ''image/png''\<rparr>"
  by (simp add: fileToGenerativePart_def demo_files_def part_png_def after_comma_data_url
        b64_char_def)

lemma demo_key: "effectiveApiKey (b_trim demo_browser) (b_env demo_browser) demo_config = ''key-from-ui''"
  by (simp add: effectiveApiKey_def demo_browser_def demo_config_def trim_spaces_examples)

lemma demo_thrown: "thrown_in_try demo_browser part_png demo_config = None"
proof -
  have "b_files demo_browser = demo_files"
    by (simp add: demo_browser_def)
  then show ?thesis
    unfolding thrown_in_try_def
    by (simp add: demo_conversion analyzeBlueprint_def demo_key Let_def)
       (simp add: demo_browser_def)
qed

lemma demo_thrown_unreadable:
  "thrown_in_try (demo_browser\<lparr>b_files := unreadable_files\<rparr>) part_png demo_config
     = Some progress_event"
  by (simp add: thrown_in_try_def fileToGenerativePart_def part_png_def unreadable_files_def)

subsection \<open>The key\<close>

text \<open>
  C7. When the key of the configuration is absent or trims to the empty text and none of
  the five environment reads yields a key, \<open>analyzeBlueprint\<close> throws an error whose message
  begins with \<open>API_KEY_MISSING\<close> and sends no request to the model. When the key of the
  configuration trims to a text that is not empty, one request is made, with that trimmed
  key, whatever the environment holds. When the configuration gives no key, one request is
  made with the first key the environment yields, in the order \<open>import.meta.env.VITE_API_KEY\<close>,
  \<open>process.env.VITE_API_KEY\<close>, \<open>process.env.REACT_APP_API_KEY\<close>, \<open>process.env.API_KEY\<close>,
  \<open>window.API_KEY\<close>; a read of the last four that throws ends the search without a key.
\<close>

theorem analyzeBlueprint_api_key:
  "let answer = analyzeBlueprint trim env generateContent JSON_parse base64Image mime config;
       r1 = import_meta_env_VITE_API_KEY env;
       r2 = process_env_VITE_API_KEY env;
       r3 = process_env_REACT_APP_API_KEY env;
       r4 = process_env_API_KEY env;
       r5 = window_API_KEY env;
       no_ui_key = (apiKey config = None \<or> (\<exists>k. apiKey config = Some k \<and> trim k = []));
       missing = ((\<exists>e m. fst answer = Inl e \<and> err_message e = Some m \<and>
                          prefix ''API_KEY_MISSING'' m) \<and> snd answer = []);
       sent_with = (\<lambda>key. key \<noteq> [] \<and>
                      snd answer = [\<lparr>req_apiKey = key, req_model = ''gemini-2.5-flash'',
                                     req_data = base64Image, req_mimeType = mime\<rparr>])
   in (no_ui_key \<and> \<not> truthy_read r1 \<and> \<not> truthy_read r2 \<and> \<not> truthy_read r3 \<and>
       \<not> truthy_read r4 \<and> \<not> truthy_read r5 \<longrightarrow> missing) \<and>
      (\<forall>k. apiKey config = Some k \<and> trim k \<noteq> [] \<longrightarrow> sent_with (trim k)) \<and>
      (no_ui_key \<and> truthy_read r1 \<longrightarrow> sent_with (read_text r1)) \<and>
      (no_ui_key \<and> \<not> truthy_read r1 \<and> truthy_read r2 \<longrightarrow> sent_with (read_text r2)) \<and>
      (no_ui_key \<and> \<not> truthy_read r1 \<and> \<not> truthy_read r2 \<and> r2 \<noteq> Read_throws \<and>
       truthy_read r3 \<longrightarrow> sent_with (read_text r3)) \<and>
      (no_ui_key \<and> \<not> truthy_read r1 \<and> \<not> truthy_read r2 \<and> r2 \<noteq> Read_throws \<and>
       \<not> truthy_read r3 \<and> r3 \<noteq> Read_throws \<and> truthy_read r4
         \<longrightarrow> sent_with (read_text r4)) \<and>
      (no_ui_key \<and> \<not> truthy_read r1 \<and> \<not> truthy_read r2 \<and> r2 \<noteq> Read_throws \<and>
       \<not> truthy_read r3 \<and> r3 \<noteq> Read_throws \<and> \<not> truthy_read r4 \<and> r4 \<noteq> Read_throws \<and>
       truthy_read r5 \<longrightarrow> sent_with (read_text r5)) \<and>
      (no_ui_key \<and> \<not> truthy_read r1 \<and>
       (r2 = Read_throws \<or>
        \<not> truthy_read r2 \<and>
        (r3 = Read_throws \<or>
         \<not> truthy_read r3 \<and> (r4 = Read_throws \<or> \<not> truthy_read r4 \<and> r5 = Read_throws)))
         \<longrightarrow> missing)"
proof -
  let ?answer = "analyzeBlueprint trim env generateContent JSON_parse base64Image mime config"
  let ?none = "apiKey config = None \<or> (\<exists>k. apiKey config = Some k \<and> trim k = [])"
  let ?missing = "(\<exists>e m. fst ?answer = Inl e \<and> err_message e = Some m \<and>
                          prefix ''API_KEY_MISSING'' m) \<and> snd ?answer = []"
  let ?sent = "\<lambda>key. key \<noteq> [] \<and>
                 snd ?answer = [\<lparr>req_apiKey = key, req_model = ''gemini-2.5-flash'',
                                req_data = base64Image, req_mimeType = mime\<rparr>]"
  have missing: ?missing if ?none "getEnvApiKey env = []"
    using that by (intro analyzeBlueprint_missing) (simp add: effectiveApiKey_env)
  have sent: "?sent key" if ?none "getEnvApiKey env = key" "key \<noteq> []" for key
    using that by (simp add: analyzeBlueprint_requests effectiveApiKey_env)
  have ui: "?sent (trim k)" if "apiKey config = Some k \<and> trim k \<noteq> []" for k
  proof -
    from that have "effectiveApiKey trim env config = trim k"
      by (simp add: effectiveApiKey_def)
    with that show ?thesis
      by (simp add: analyzeBlueprint_requests)
  qed
  have c1: ?missing
    if ?none "\<not> truthy_read (import_meta_env_VITE_API_KEY env)"
      "\<not> truthy_read (process_env_VITE_API_KEY env)"
      "\<not> truthy_read (process_env_REACT_APP_API_KEY env)"
      "\<not> truthy_read (process_env_API_KEY env)" "\<not> truthy_read (window_API_KEY env)"
    using that(1) by (rule missing) (rule getEnvApiKey_none [OF that(2-6)])
  have k1: "?sent (read_text (import_meta_env_VITE_API_KEY env))"
    if ?none "truthy_read (import_meta_env_VITE_API_KEY env)"
    using that(1) by (rule sent) (use that(2) truthy_read_text in \<open>simp_all add: getEnvApiKey_def\<close>)
  have k2: "?sent (read_text (process_env_VITE_API_KEY env))"
    if ?none "\<not> truthy_read (import_meta_env_VITE_API_KEY env)"
      "truthy_read (process_env_VITE_API_KEY env)"
    using that(1)
    by (rule sent) (use that(2-) truthy_read_text in \<open>auto simp: getEnvApiKey_def\<close>)
  have k3: "?sent (read_text (process_env_REACT_APP_API_KEY env))"
    if ?none "\<not> truthy_read (import_meta_env_VITE_API_KEY env)"
      "\<not> truthy_read (process_env_VITE_API_KEY env)" "process_env_VITE_API_KEY env \<noteq> Read_throws"
      "truthy_read (process_env_REACT_APP_API_KEY env)"
    using that(1)
    by (rule sent) (use that(2-) truthy_read_text in \<open>auto simp: getEnvApiKey_def\<close>)
  have k4: "?sent (read_text (process_env_API_KEY env))"
    if ?none "\<not> truthy_read (import_meta_env_VITE_API_KEY env)"
      "\<not> truthy_read (process_env_VITE_API_KEY env)" "process_env_VITE_API_KEY env \<noteq> Read_throws"
      "\<not> truthy_read (process_env_REACT_APP_API_KEY env)"
      "process_env_REACT_APP_API_KEY env \<noteq> Read_throws"
      "truthy_read (process_env_API_KEY env)"
    using that(1)
    by (rule sent) (use that(2-) truthy_read_text in \<open>auto simp: getEnvApiKey_def\<close>)
  have k5: "?sent (read_text (window_API_KEY env))"
    if ?none "\<not> truthy_read (import_meta_env_VITE_API_KEY env)"
      "\<not> truthy_read (process_env_VITE_API_KEY env)" "process_env_VITE_API_KEY env \<noteq> Read_throws"
      "\<not> truthy_read (process_env_REACT_APP_API_KEY env)"
      "process_env_REACT_APP_API_KEY env \<noteq> Read_throws"
      "\<not> truthy_read (process_env_API_KEY env)" "process_env_API_KEY env \<noteq> Read_throws"
      "truthy_read (window_API_KEY env)"
    using that(1)
    by (rule sent) (use that(2-) truthy_read_text in \<open>auto simp: getEnvApiKey_def\<close>)
  have thrown: ?missing
    if ?none "\<not> truthy_read (import_meta_env_VITE_API_KEY env)"
      "process_env_VITE_API_KEY env = Read_throws \<or>
        \<not> truthy_read (process_env_VITE_API_KEY env) \<and>
        (process_env_REACT_APP_API_KEY env = Read_throws \<or>
         \<not> truthy_read (process_env_REACT_APP_API_KEY env) \<and>
         (process_env_API_KEY env = Read_throws \<or>
          \<not> truthy_read (process_env_API_KEY env) \<and> window_API_KEY env = Read_throws))"
    using that(1) by (rule missing) (use that(2-) in \<open>auto simp: getEnvApiKey_def\<close>)
  have g1: "?none \<and> \<not> truthy_read (import_meta_env_VITE_API_KEY env) \<and>
      \<not> truthy_read (process_env_VITE_API_KEY env) \<and>
      \<not> truthy_read (process_env_REACT_APP_API_KEY env) \<and>
      \<not> truthy_read (process_env_API_KEY env) \<and> \<not> truthy_read (window_API_KEY env)
      \<longrightarrow> ?missing"
    using c1 by blast
  have g2: "\<forall>k. apiKey config = Some k \<and> trim k \<noteq> [] \<longrightarrow> ?sent (trim k)"
    using ui by blast
  have g3: "?none \<and> truthy_read (import_meta_env_VITE_API_KEY env)
      \<longrightarrow> ?sent (read_text (import_meta_env_VITE_API_KEY env))"
    using k1 by blast
  have g4: "?none \<and> \<not> truthy_read (import_meta_env_VITE_API_KEY env) \<and>
      truthy_read (process_env_VITE_API_KEY env)
      \<longrightarrow> ?sent (read_text (process_env_VITE_API_KEY env))"
    using k2 by blast
  have g5: "?none \<and> \<not> truthy_read (import_meta_env_VITE_API_KEY env) \<and>
      \<not> truthy_read (process_env_VITE_API_KEY env) \<and>
      process_env_VITE_API_KEY env \<noteq> Read_throws \<and>
      truthy_read (process_env_REACT_APP_API_KEY env)
      \<longrightarrow> ?sent (read_text (process_env_REACT_APP_API_KEY env))"
    using k3 by blast
  have g6: "?none \<and> \<not> truthy_read (import_meta_env_VITE_API_KEY env) \<and>
      \<not> truthy_read (process_env_VITE_API_KEY env) \<and>
      process_env_VITE_API_KEY env \<noteq> Read_throws \<and>
      \<not> truthy_read (process_env_REACT_APP_API_KEY env) \<and>
      process_env_REACT_APP_API_KEY env \<noteq> Read_throws \<and>
      truthy_read (process_env_API_KEY env)
      \<longrightarrow> ?sent (read_text (process_env_API_KEY env))"
    using k4 by blast
  have g7: "?none \<and> \<not> truthy_read (import_meta_env_VITE_API_KEY env) \<and>
      \<not> truthy_read (process_env_VITE_API_KEY env) \<and>
      process_env_VITE_API_KEY env \<noteq> Read_throws \<and>
      \<not> truthy_read (process_env_REACT_APP_API_KEY env) \<and>
      process_env_REACT_APP_API_KEY env \<noteq> Read_throws \<and>
      \<not> truthy_read (process_env_API_KEY env) \<and> process_env_API_KEY env \<noteq> Read_throws \<and>
      truthy_read (window_API_KEY env)
      \<longrightarrow> ?sent (read_text (window_API_KEY env))"
    using k5 by blast
  have g8: "?none \<and> \<not> truthy_read (import_meta_env_VITE_API_KEY env) \<and>
      (process_env_VITE_API_KEY env = Read_throws \<or>
        \<not> truthy_read (process_env_VITE_API_KEY env) \<and>
        (process_env_REACT_APP_API_KEY env = Read_throws \<or>
         \<not> truthy_read (process_env_REACT_APP_API_KEY env) \<and>
         (process_env_API_KEY env = Read_throws \<or>
          \<not> truthy_read (process_env_API_KEY env) \<and> window_API_KEY env = Read_throws)))
      \<longrightarrow> ?missing"
    using thrown by blast
  show ?thesis
    unfolding Let_def by (intro conjI g1 g2 g3 g4 g5 g6 g7 g8)
qed

text \<open>
  A blank key and no key in the environment; a key typed into the page; no key typed into
  the page and one in \<open>process.env.API_KEY\<close>; and a read of \<open>process.env.VITE_API_KEY\<close> that
  throws before that key is reached.
\<close>

theorem analyzeBlueprint_api_key_witness:
  "(\<exists>e m. fst (analyzeBlueprint trim_spaces no_env (b_generateContent demo_browser)
               (b_JSON_parse demo_browser) (Some ''iVBORw=='') ''image/png''
               (demo_config\<lparr>apiKey := Some ''   ''\<rparr>)) = Inl e \<and>
          err_message e = Some m \<and> prefix ''API_KEY_MISSING'' m) \<and>
   snd (analyzeBlueprint trim_spaces no_env (b_generateContent demo_browser)
          (b_JSON_parse demo_browser) (Some ''iVBORw=='') ''image/png''
          (demo_config\<lparr>apiKey := Some ''   ''\<rparr>)) = [] \<and>
   snd (analyzeBlueprint trim_spaces env_with_key (b_generateContent demo_browser)
          (b_JSON_parse demo_browser) (Some ''iVBORw=='') ''image/png'' demo_config)
     = [\<lparr>req_apiKey = ''key-from-ui'', req_model = ''gemini-2.5-flash'',
         req_data = Some ''iVBORw=='', req_mimeType = ''image/png''\<rparr>] \<and>
   snd (analyzeBlueprint trim_spaces env_with_key (b_generateContent demo_browser)
          (b_JSON_parse demo_browser) (Some ''iVBORw=='') ''image/png''
          (demo_config\<lparr>apiKey := None\<rparr>))
     = [\<lparr>req_apiKey = ''key-from-env'', req_model = ''gemini-2.5-flash'',
         req_data = Some ''iVBORw=='', req_mimeType = ''image/png''\<rparr>] \<and>
   snd (analyzeBlueprint trim_spaces (env_with_key\<lparr>process_env_VITE_API_KEY := Read_throws\<rparr>)
          (b_generateContent demo_browser) (b_JSON_parse demo_browser) (Some ''iVBORw=='')
          ''image/png'' (demo_config\<lparr>apiKey := None\<rparr>)) = []"
  using analyzeBlueprint_api_key [of trim_spaces no_env "b_generateContent demo_browser"
      "b_JSON_parse demo_browser" "Some ''iVBORw==''" "''image/png''"
      "demo_config\<lparr>apiKey := Some ''   ''\<rparr>"]
    analyzeBlueprint_api_key [of trim_spaces env_with_key "b_generateContent demo_browser"
      "b_JSON_parse demo_browser" "Some ''iVBORw==''" "''image/png''" demo_config]
    analyzeBlueprint_api_key [of trim_spaces env_with_key "b_generateContent demo_browser"
      "b_JSON_parse demo_browser" "Some ''iVBORw==''" "''image/png''"
      "demo_config\<lparr>apiKey := None\<rparr>"]
    analyzeBlueprint_api_key [of trim_spaces
      "env_with_key\<lparr>process_env_VITE_API_KEY := Read_throws\<rparr>"
      "b_generateContent demo_browser"
      "b_JSON_parse demo_browser" "Some ''iVBORw==''" "''image/png''"
      "demo_config\<lparr>apiKey := None\<rparr>"]
  by (simp add: Let_def trim_spaces_examples no_env_def env_with_key_def truthy_read_def
        read_text_def demo_config_def)

subsection \<open>The conversion of the file\<close>

text \<open>
  C8 (as amended). For a file of type \<open>application/pdf\<close>, \<open>fileToGenerativePart\<close> either
  resolves with the mime type \<open>image/jpeg\<close> and a payload, or rejects with the PDF conversion
  error. It resolves when the bytes of the file can be read, the document opens and has a
  first page, the canvas has a 2d context and the page renders; the payload is then the
  base64 text of the JPEG bytes of the rendered first page. It rejects when one of these
  steps fails. For any other file it resolves with the file's own mime type and the base64
  text of the bytes of the file when the reader loads the file, or rejects with the reader's
  error when the file cannot be read.
\<close>

theorem fileToGenerativePart_outcomes:
  "let outcome = fileToGenerativePart P file
   in (file_type file = ''application/pdf'' \<longrightarrow>
         ((\<exists>d. outcome = Resolved \<lparr>base64 = Some d, mimeType = ''image/jpeg''\<rparr>) \<or>
          outcome = Rejected (new_Error PDF_FAILED_message)) \<and>
         (\<not> arrayBuffer_rejects P file \<and> getDocument P (file_bytes file) = Some (page # pages) \<and>
          canvas_2d P \<and> render_page P page = Some picture
            \<longrightarrow> outcome = Resolved \<lparr>base64 = Some (base64_encode (toJPEG P picture)),
                                     mimeType = ''image/jpeg''\<rparr>) \<and>
         (arrayBuffer_rejects P file \<or> getDocument P (file_bytes file) = None \<or>
          getDocument P (file_bytes file) = Some [] \<or> \<not> canvas_2d P \<or>
          (getDocument P (file_bytes file) = Some (page # pages) \<and> render_page P page = None)
            \<longrightarrow> outcome = Rejected (new_Error PDF_FAILED_message))) \<and>
      (file_type file \<noteq> ''application/pdf'' \<longrightarrow>
         (readAsDataURL P file = Reader_loaded media \<and> CHR '','' \<notin> set media
            \<longrightarrow> outcome = Resolved \<lparr>base64 = Some (base64_encode (file_bytes file)),
                                     mimeType = file_type file\<rparr>) \<and>
         (readAsDataURL P file = Reader_error e \<longrightarrow> outcome = Rejected e)) \<and>
      prefix ''PDF'' PDF_FAILED_message"
proof -
  have pdf: "fileToGenerativePart P file
      = (case pdf_first_page_jpeg P file of
           None \<Rightarrow> Rejected (new_Error PDF_FAILED_message)
         | Some u \<Rightarrow> Resolved \<lparr>base64 = after_comma u, mimeType = ''image/jpeg''\<rparr>)"
    if "file_type file = ''application/pdf''"
    using that by (simp add: fileToGenerativePart_def)
  have either: "(\<exists>d. fileToGenerativePart P file
                        = Resolved \<lparr>base64 = Some d, mimeType = ''image/jpeg''\<rparr>) \<or>
                fileToGenerativePart P file = Rejected (new_Error PDF_FAILED_message)"
    if "file_type file = ''application/pdf''"
  proof (cases "pdf_first_page_jpeg P file")
    case None
    then show ?thesis
      by (simp add: pdf [OF that])
  next
    case (Some u)
    then obtain picture' where "u = data_url ''image/jpeg'' (toJPEG P picture')"
      unfolding pdf_first_page_jpeg_Some by blast
    with Some show ?thesis
      by (simp add: pdf [OF that] after_comma_data_url)
  qed
  have rendered: "fileToGenerativePart P file
      = Resolved \<lparr>base64 = Some (base64_encode (toJPEG P picture)), mimeType = ''image/jpeg''\<rparr>"
    if "file_type file = ''application/pdf''" "\<not> arrayBuffer_rejects P file"
      "getDocument P (file_bytes file) = Some (page # pages)" "canvas_2d P"
      "render_page P page = Some picture"
    using that by (simp add: pdf pdf_first_page_jpeg_def after_comma_data_url)
  have failed: "fileToGenerativePart P file = Rejected (new_Error PDF_FAILED_message)"
    if "file_type file = ''application/pdf''"
      "arrayBuffer_rejects P file \<or> getDocument P (file_bytes file) = None \<or>
       getDocument P (file_bytes file) = Some [] \<or> \<not> canvas_2d P \<or>
       (getDocument P (file_bytes file) = Some (page # pages) \<and> render_page P page = None)"
    using that by (auto simp: pdf pdf_first_page_jpeg_def split: option.splits list.splits)
  have loaded: "fileToGenerativePart P file
      = Resolved \<lparr>base64 = Some (base64_encode (file_bytes file)), mimeType = file_type file\<rparr>"
    if "file_type file \<noteq> ''application/pdf''" "readAsDataURL P file = Reader_loaded media"
      "CHR '','' \<notin> set media"
    using that by (simp add: fileToGenerativePart_def after_comma_data_url)
  have unread: "fileToGenerativePart P file = Rejected e"
    if "file_type file \<noteq> ''application/pdf''" "readAsDataURL P file = Reader_error e"
    using that by (simp add: fileToGenerativePart_def)
  have h1: "file_type file = ''application/pdf'' \<longrightarrow>
         ((\<exists>d. fileToGenerativePart P file
                  = Resolved \<lparr>base64 = Some d, mimeType = ''image/jpeg''\<rparr>) \<or>
          fileToGenerativePart P file = Rejected (new_Error PDF_FAILED_message)) \<and>
         (\<not> arrayBuffer_rejects P file \<and> getDocument P (file_bytes file) = Some (page # pages) \<and>
          canvas_2d P \<and> render_page P page = Some picture
            \<longrightarrow> fileToGenerativePart P file
                  = Resolved \<lparr>base64 = Some (base64_encode (toJPEG P picture)),
                              mimeType = ''image/jpeg''\<rparr>) \<and>
         (arrayBuffer_rejects P file \<or> getDocument P (file_bytes file) = None \<or>
          getDocument P (file_bytes file) = Some [] \<or> \<not> canvas_2d P \<or>
          (getDocument P (file_bytes file) = Some (page # pages) \<and> render_page P page = None)
            \<longrightarrow> fileToGenerativePart P file = Rejected (new_Error PDF_FAILED_message))"
    using either rendered failed by blast
  have h2: "file_type file \<noteq> ''application/pdf'' \<longrightarrow>
         (readAsDataURL P file = Reader_loaded media \<and> CHR '','' \<notin> set media
            \<longrightarrow> fileToGenerativePart P file
                  = Resolved \<lparr>base64 = Some (base64_encode (file_bytes file)),
                              mimeType = file_type file\<rparr>) \<and>
         (readAsDataURL P file = Reader_error e \<longrightarrow> fileToGenerativePart P file = Rejected e)"
    using loaded unread by blast
  show ?thesis
    unfolding Let_def by (intro conjI h1 h2 PDF_FAILED_prefix)
qed

text \<open>
  A PDF whose first page renders, the same PDF when the canvas has no 2d context, a PNG
  image, and the PNG image when the reader fails.
\<close>

theorem fileToGenerativePart_outcomes_witness:
  "fileToGenerativePart demo_files part_pdf
     = Resolved \<lparr>base64 = Some ''SlBFRyhpbWFnZSBvZiBwYWdlIG9uZSk='', mimeType = ''image/jpeg''\<rparr> \<and>
   fileToGenerativePart (demo_files\<lparr>canvas_2d := False\<rparr>) part_pdf
     = Rejected (new_Error PDF_FAILED_message) \<and>
   fileToGenerativePart demo_files part_png
     = Resolved \<lparr>base64 = Some ''iVBORw=='', mimeType = ''image/png''\<rparr> \<and>
   fileToGenerativePart unreadable_files part_png = Rejected progress_event"
  using fileToGenerativePart_outcomes
      [of demo_files part_pdf "''page one''" "[''page two'']" "''image of page one''"]
    fileToGenerativePart_outcomes [of "demo_files\<lparr>canvas_2d := False\<rparr>" part_pdf]
    fileToGenerativePart_outcomes
      [of demo_files part_png _ _ _ "''image/png''"]
    fileToGenerativePart_outcomes
      [of unreadable_files part_png _ _ _ _ progress_event]
  by (simp add: Let_def demo_files_def unreadable_files_def part_pdf_def part_png_def
        b64_char_def)

text \<open>
  C8 as the specification words it fails: a file that is not a PDF and cannot be read is
  rejected, not resolved with its content.
\<close>

theorem fileToGenerativePart_counterexample:
  "file_type part_png \<noteq> ''application/pdf'' \<and>
   fileToGenerativePart unreadable_files part_png = Rejected progress_event \<and>
   fileToGenerativePart unreadable_files part_png
     \<noteq> Resolved \<lparr>base64 = Some (base64_encode (file_bytes part_png)),
                  mimeType = file_type part_png\<rparr>"
  by (simp add: fileToGenerativePart_def part_png_def unreadable_files_def)

subsection \<open>One run of the analysis\<close>

text \<open>
  C9. One run of \<open>handleAnalyze\<close> calls \<open>analyzeBlueprint\<close> at most once and sends at most
  one request to the model; both happen exactly once when the conversion of the file
  resolves and a key is available. When the conversion or the analysis fails, the run ends
  in the state \<open>ERROR\<close> with one of the four messages, the storage untouched, and nothing is
  tried again; otherwise it ends in the state \<open>SUCCESS\<close>.
\<close>

theorem handleAnalyze_single_call:
  "let run = handleAnalyze b file config app st;
       outcome = fileToGenerativePart (b_files b) file
   in analyze_calls run \<le> 1 \<and> length (requests run) \<le> 1 \<and>
      ((\<exists>part. outcome = Resolved part) \<and> effectiveApiKey (b_trim b) (b_env b) config \<noteq> []
         \<longrightarrow> analyze_calls run = 1 \<and> length (requests run) = 1) \<and>
      (\<forall>err. thrown_in_try b file config = Some err
         \<longrightarrow> appState (run_app run) = ERROR \<and>
             errorMsg (run_app run) = Some (error_message err) \<and>
             error_message err \<in> {MSG_API_KEY, MSG_BUSY, MSG_PDF, MSG_DEFAULT} \<and>
             run_storage run = st) \<and>
      (thrown_in_try b file config = None \<longrightarrow> appState (run_app run) = SUCCESS)"
proof (cases "fileToGenerativePart (b_files b) file")
  case (Rejected err)
  then show ?thesis
    using error_message_cases [of err]
    by (simp add: handleAnalyze_def thrown_in_try_def failed_run_def Let_def)
next
  case (Resolved part)
  let ?answer = "analyzeBlueprint (b_trim b) (b_env b) (b_generateContent b)
                            (b_JSON_parse b) (base64 part) (mimeType part) config"
  show ?thesis
  proof (cases "fst ?answer")
    case (Inl err)
    with Resolved show ?thesis
      using error_message_cases [of err]
      by (simp add: handleAnalyze_def thrown_in_try_def failed_run_def Let_def
            analyzeBlueprint_requests)
  next
    case (Inr data)
    with Resolved show ?thesis
      by (simp add: handleAnalyze_def thrown_in_try_def Let_def analyzeBlueprint_requests)
  qed
qed

theorem handleAnalyze_single_call_witness:
  "analyze_calls (handleAnalyze demo_browser part_png demo_config demo_app (demo_storage [])) = 1 \<and>
   length (requests (handleAnalyze demo_browser part_png demo_config demo_app (demo_storage []))) = 1 \<and>
   appState (run_app (handleAnalyze demo_browser part_png demo_config demo_app (demo_storage [])))
     = SUCCESS \<and>
   appState (run_app (handleAnalyze (demo_browser\<lparr>b_files := unreadable_files\<rparr>)
                        part_png demo_config demo_app (demo_storage []))) = ERROR \<and>
   errorMsg (run_app (handleAnalyze (demo_browser\<lparr>b_files := unreadable_files\<rparr>)
                        part_png demo_config demo_app (demo_storage []))) = Some MSG_DEFAULT \<and>
   analyze_calls (handleAnalyze (demo_browser\<lparr>b_files := unreadable_files\<rparr>)
                        part_png demo_config demo_app (demo_storage [])) \<le> 1"
proof -
  have files: "b_files demo_browser = demo_files"
    by (simp add: demo_browser_def)
  show ?thesis
    using handleAnalyze_single_call [of demo_browser part_png demo_config demo_app "demo_storage []"]
      handleAnalyze_single_call [of "demo_browser\<lparr>b_files := unreadable_files\<rparr>"
        part_png demo_config demo_app "demo_storage []"]
    by (simp add: Let_def files demo_conversion demo_key demo_thrown demo_thrown_unreadable
          error_message_progress_event)
qed

end
